theory Spec2Isabelle
  imports Complex_Main "HOL-Library.Product_Lexorder" "HOL-Library.Sublist"
begin

section \<open>JavaScript values and the built-ins the helpers rely on\<close>

text \<open>
  Request parameters, request bodies and query objects are JavaScript values. Numbers are
  the integer-valued ones (counts, years, season and episode numbers, page numbers) and
  \<open>NaN\<close>; a numeric parse returns \<open>NaN\<close> as the \<open>None\<close> of an option. Characters are
  the code points below 256.
\<close>

datatype jsval =
    JUndefined
  | JNull
  | JBool bool
  | JNum int
  | JNaN
  | JStr string
  | JArr "jsval list"
  | JObj "(string \<times> jsval) list"

text \<open>Truthiness, as \<open>if (v)\<close>, \<open>v && ...\<close> and \<open>v || ...\<close> test it.\<close>

fun truthy :: "jsval \<Rightarrow> bool" where
  "truthy JUndefined = False"
| "truthy JNull = False"
| "truthy (JBool b) = b"
| "truthy (JNum n) = (n \<noteq> 0)"
| "truthy JNaN = False"
| "truthy (JStr s) = (s \<noteq> [])"
| "truthy (JArr xs) = True"
| "truthy (JObj kvs) = True"

subsection \<open>Character classes of the regular expressions\<close>

definition is_space :: "char \<Rightarrow> bool" where
  "is_space c = (let n = (of_char c :: nat) in
     n = 9 \<or> n = 10 \<or> n = 11 \<or> n = 12 \<or> n = 13 \<or> n = 32 \<or> n = 160)"

definition is_digit :: "char \<Rightarrow> bool" where
  "is_digit c = (let n = (of_char c :: nat) in 48 \<le> n \<and> n \<le> 57)"

definition is_upper :: "char \<Rightarrow> bool" where
  "is_upper c = (let n = (of_char c :: nat) in 65 \<le> n \<and> n \<le> 90)"

definition is_lower :: "char \<Rightarrow> bool" where
  "is_lower c = (let n = (of_char c :: nat) in 97 \<le> n \<and> n \<le> 122)"

text \<open>The class \<open>\w\<close>: ASCII letters, digits and the underscore.\<close>

definition is_word :: "char \<Rightarrow> bool" where
  "is_word c = (is_digit c \<or> is_upper c \<or> is_lower c \<or> c = CHR ''_'')"

text \<open>\<open>String.prototype.trim\<close>.\<close>

definition trim :: "string \<Rightarrow> string" where
  "trim s = rev (dropWhile is_space (rev (dropWhile is_space s)))"

subsection \<open>Numbers to strings\<close>

definition digit_char :: "nat \<Rightarrow> char" where
  "digit_char d = char_of (48 + d)"

function show_nat :: "nat \<Rightarrow> string" where
  "show_nat n = (if n < 10 then [digit_char n] else show_nat (n div 10) @ [digit_char (n mod 10)])"
  by pat_completeness auto
termination
  by (relation "measure id") auto

declare show_nat.simps [simp del]

definition show_int :: "int \<Rightarrow> string" where
  "show_int n = (if n < 0 then CHR ''-'' # show_nat (nat (- n)) else show_nat (nat n))"

fun join_comma :: "string list \<Rightarrow> string" where
  "join_comma [] = []"
| "join_comma [s] = s"
| "join_comma (s # t # ss) = s @ CHR '','' # join_comma (t # ss)"

text \<open>
  \<open>ToString\<close>: what \<open>value.toString()\<close>, a template literal and the string argument of
  \<open>parseInt\<close> see. An array joins its elements with commas, \<open>null\<close> and \<open>undefined\<close>
  elements printing as the empty string.
\<close>

fun to_string :: "jsval \<Rightarrow> string" where
  "to_string JUndefined = ''undefined''"
| "to_string JNull = ''null''"
| "to_string (JBool b) = (if b then ''true'' else ''false'')"
| "to_string (JNum n) = show_int n"
| "to_string JNaN = ''NaN''"
| "to_string (JStr s) = s"
| "to_string (JArr xs) =
     join_comma (map (\<lambda>x. if x = JUndefined \<or> x = JNull then [] else to_string x) xs)"
| "to_string (JObj kvs) = ''[object Object]''"

subsection \<open>\<open>parseInt\<close>\<close>

definition digit_value :: "char \<Rightarrow> nat option" where
  "digit_value c = (let n = (of_char c :: nat) in
     if 48 \<le> n \<and> n \<le> 57 then Some (n - 48)
     else if 97 \<le> n \<and> n \<le> 122 then Some (n - 87)
     else if 65 \<le> n \<and> n \<le> 90 then Some (n - 55)
     else None)"

definition is_radix_digit :: "nat \<Rightarrow> char \<Rightarrow> bool" where
  "is_radix_digit r c = (case digit_value c of None \<Rightarrow> False | Some d \<Rightarrow> d < r)"

definition radix_value :: "nat \<Rightarrow> string \<Rightarrow> nat" where
  "radix_value r ds =
     foldl (\<lambda>acc c. acc * r + (case digit_value c of None \<Rightarrow> 0 | Some d \<Rightarrow> d)) 0 ds"

text \<open>
  \<open>parseInt(string)\<close> with no radix: leading white space is skipped, a sign is read, a
  \<open>0x\<close> prefix selects radix 16, and the longest prefix of digits is the value; no digit
  at all is \<open>NaN\<close>.
\<close>

definition parseInt_string :: "string \<Rightarrow> int option" where
  "parseInt_string str =
     (let s = dropWhile is_space str;
          neg = (s \<noteq> [] \<and> hd s = CHR ''-'');
          s1 = (if s \<noteq> [] \<and> (hd s = CHR ''-'' \<or> hd s = CHR ''+'') then tl s else s);
          hex = (take 2 s1 = ''0x'' \<or> take 2 s1 = ''0X'');
          r = (if hex then 16 else 10);
          s2 = (if hex then drop 2 s1 else s1);
          z = takeWhile (is_radix_digit r) s2
      in if z = [] then None
         else Some ((if neg then - 1 else 1) * int (radix_value r z)))"

definition parseInt :: "jsval \<Rightarrow> int option" where
  "parseInt v = parseInt_string (to_string v)"

text \<open>\<open>x || d\<close> for a number \<open>x\<close>: \<open>NaN\<close> and \<open>0\<close> are falsy.\<close>

definition or_default :: "int option \<Rightarrow> int \<Rightarrow> int" where
  "or_default x d = (case x of None \<Rightarrow> d | Some n \<Rightarrow> if n = 0 then d else n)"

subsection \<open>\<open>Number\<close>, \<open>isNaN\<close> and \<open>parseFloat\<close>\<close>

text \<open>
  The result of a numeric conversion: \<open>NaN\<close>, an infinity (\<open>True\<close> for the positive
  one) or a finite value, kept as an exact rational.
\<close>

datatype jsnum = NumNaN | NumInf bool | NumFin rat

text \<open>An exponent part \<open>e\<close>, optional sign, digits, at the head of a string.\<close>

definition parse_exponent :: "string \<Rightarrow> (int \<times> string) option" where
  "parse_exponent s =
     (case s of
        [] \<Rightarrow> None
      | c # cs \<Rightarrow>
          if c = CHR ''e'' \<or> c = CHR ''E'' then
            (let neg = (cs \<noteq> [] \<and> hd cs = CHR ''-'');
                 cs1 = (if cs \<noteq> [] \<and> (hd cs = CHR ''-'' \<or> hd cs = CHR ''+'') then tl cs else cs);
                 ds = takeWhile is_digit cs1
             in if ds = [] then None
                else Some ((if neg then - 1 else 1) * int (radix_value 10 ds),
                           dropWhile is_digit cs1))
          else None)"

text \<open>
  The longest unsigned decimal literal at the head of a string (digits, an optional
  fraction, an optional exponent), with the rest of the string.
\<close>

definition parse_decimal :: "string \<Rightarrow> (rat \<times> string) option" where
  "parse_decimal s =
     (let d1 = takeWhile is_digit s;
          r1 = dropWhile is_digit s;
          has_dot = (r1 \<noteq> [] \<and> hd r1 = CHR ''.'');
          d2 = (if has_dot then takeWhile is_digit (tl r1) else []);
          r2 = (if has_dot then dropWhile is_digit (tl r1) else r1)
      in if d1 = [] \<and> d2 = [] then None
         else
           (let m = of_nat (radix_value 10 d1) + of_nat (radix_value 10 d2) / 10 ^ length d2
            in case parse_exponent r2 of
                 None \<Rightarrow> Some (m, r2)
               | Some (e, r3) \<Rightarrow>
                   Some (m * (if e < 0 then 1 / 10 ^ nat (- e) else 10 ^ nat e), r3)))"

definition strip_sign :: "string \<Rightarrow> bool \<times> string" where
  "strip_sign s =
     (case s of
        [] \<Rightarrow> (False, [])
      | c # cs \<Rightarrow> if c = CHR ''-'' then (True, cs) else if c = CHR ''+'' then (False, cs)
                 else (False, s))"

definition prefixed_radix :: "string \<Rightarrow> nat option" where
  "prefixed_radix s =
     (if take 2 s = ''0x'' \<or> take 2 s = ''0X'' then Some 16
      else if take 2 s = ''0o'' \<or> take 2 s = ''0O'' then Some 8
      else if take 2 s = ''0b'' \<or> take 2 s = ''0B'' then Some 2
      else None)"

text \<open>\<open>Number(string)\<close>: the whole trimmed string must be a numeric literal.\<close>

definition toNumber_string :: "string \<Rightarrow> jsnum" where
  "toNumber_string str =
     (let s = trim str in
      if s = [] then NumFin 0
      else case prefixed_radix s of
        Some r \<Rightarrow>
          (let ds = drop 2 s in
           if ds \<noteq> [] \<and> list_all (is_radix_digit r) ds then NumFin (of_nat (radix_value r ds))
           else NumNaN)
      | None \<Rightarrow>
          (let (neg, s1) = strip_sign s in
           if s1 = ''Infinity'' then NumInf (\<not> neg)
           else case parse_decimal s1 of
                  None \<Rightarrow> NumNaN
                | Some (v, rest) \<Rightarrow>
                    if rest = [] then NumFin (if neg then - v else v) else NumNaN))"

definition toNumber :: "jsval \<Rightarrow> jsnum" where
  "toNumber v =
     (case v of
        JUndefined \<Rightarrow> NumNaN
      | JNull \<Rightarrow> NumFin 0
      | JBool b \<Rightarrow> NumFin (if b then 1 else 0)
      | JNum n \<Rightarrow> NumFin (of_int n)
      | JNaN \<Rightarrow> NumNaN
      | JStr s \<Rightarrow> toNumber_string s
      | JArr xs \<Rightarrow> toNumber_string (to_string v)
      | JObj kvs \<Rightarrow> toNumber_string (to_string v))"

definition isNaN :: "jsval \<Rightarrow> bool" where
  "isNaN v = (toNumber v = NumNaN)"

text \<open>\<open>parseFloat\<close>: the longest decimal literal after leading white space.\<close>

definition parseFloat_string :: "string \<Rightarrow> jsnum" where
  "parseFloat_string str =
     (let (neg, s1) = strip_sign (dropWhile is_space str) in
      if take 8 s1 = ''Infinity'' then NumInf (\<not> neg)
      else case parse_decimal s1 of
             None \<Rightarrow> NumNaN
           | Some (v, rest) \<Rightarrow> NumFin (if neg then - v else v))"

definition parseFloat :: "jsval \<Rightarrow> jsnum" where
  "parseFloat v = parseFloat_string (to_string v)"

text \<open>A number or \<open>NaN\<close> as a value.\<close>

definition num_val :: "int option \<Rightarrow> jsval" where
  "num_val x = (case x of None \<Rightarrow> JNaN | Some n \<Rightarrow> JNum n)"

text \<open>
  Equality of a stored number with a request value: strict (\<open>===\<close>) compares without
  conversion, loose (\<open>==\<close>) converts the other side to a number first.
\<close>

definition strict_eq_num :: "int \<Rightarrow> jsval \<Rightarrow> bool" where
  "strict_eq_num n v = (v = JNum n)"

definition loose_eq_num :: "int \<Rightarrow> jsval \<Rightarrow> bool" where
  "loose_eq_num n v =
     (case v of
        JUndefined \<Rightarrow> False
      | JNull \<Rightarrow> False
      | _ \<Rightarrow> toNumber v = NumFin (of_int n))"

subsection \<open>Objects as key-value lists\<close>

text \<open>
  An object is the list of its properties in insertion order. A read returns the first
  entry of a key, \<open>undefined\<close> when there is none; a write replaces the entry of the key
  or appends a new one.
\<close>

definition obj_keys :: "(string \<times> 'v) list \<Rightarrow> string list" where
  "obj_keys kvs = remdups (map fst kvs)"

definition obj_get :: "(string \<times> jsval) list \<Rightarrow> string \<Rightarrow> jsval" where
  "obj_get kvs k = (case map_of kvs k of None \<Rightarrow> JUndefined | Some v \<Rightarrow> v)"

fun obj_set :: "string \<Rightarrow> 'v \<Rightarrow> (string \<times> 'v) list \<Rightarrow> (string \<times> 'v) list" where
  "obj_set k v [] = [(k, v)]"
| "obj_set k v ((k', v') # kvs) =
     (if k' = k then (k, v) # kvs else (k', v') # obj_set k v kvs)"

definition obj_delete :: "string \<Rightarrow> (string \<times> 'v) list \<Rightarrow> (string \<times> 'v) list" where
  "obj_delete k kvs = filter (\<lambda>kv. fst kv \<noteq> k) kvs"

section \<open>Pagination helper (\<open>utils/helpers.js\<close>)\<close>

record 'a pagination =
  docs :: "'a list"
  totalDocs :: int
  limit :: int
  totalPages :: int
  page :: int
  pagingCounter :: int
  hasPrevPage :: bool
  hasNextPage :: bool
  prevPage :: "int option"
  nextPage :: "int option"

text \<open>\<open>Math.ceil(a / b)\<close> on integers \<open>a\<close> and \<open>b\<close>.\<close>

definition math_ceil_div :: "int \<Rightarrow> int \<Rightarrow> int" where
  "math_ceil_div a b = \<lceil>rat_of_int a / rat_of_int b\<rceil>"

definition createPagination :: "jsval \<Rightarrow> jsval \<Rightarrow> int \<Rightarrow> 'a list \<Rightarrow> 'a pagination" where
  "createPagination pg lm tot ds =
     (let currentPage = or_default (parseInt pg) 1;
          itemsPerPage = or_default (parseInt lm) 12;
          tp = math_ceil_div tot itemsPerPage;
          hasNext = (currentPage < tp);
          hasPrev = (currentPage > 1)
      in \<lparr> docs = ds,
           totalDocs = tot,
           limit = itemsPerPage,
           totalPages = tp,
           page = currentPage,
           pagingCounter = (currentPage - 1) * itemsPerPage + 1,
           hasPrevPage = hasPrev,
           hasNextPage = hasNext,
           prevPage = (if hasPrev then Some (currentPage - 1) else None),
           nextPage = (if hasNext then Some (currentPage + 1) else None) \<rparr>)"

section \<open>Slug generator (\<open>utils/helpers.js\<close>)\<close>

text \<open>\<open>String.prototype.toLowerCase\<close> on the code points below 256.\<close>

definition to_lower_char :: "char \<Rightarrow> char" where
  "to_lower_char c = (let n = (of_char c :: nat) in
     if (65 \<le> n \<and> n \<le> 90) \<or> (192 \<le> n \<and> n \<le> 222 \<and> n \<noteq> 215) then char_of (n + 32) else c)"

definition toLowerCase :: "string \<Rightarrow> string" where
  "toLowerCase s = map to_lower_char s"

text \<open>\<open>.replace(/[^\w\s-]/g, '')\<close>: keep word characters, white space and hyphens.\<close>

definition remove_special :: "string \<Rightarrow> string" where
  "remove_special s = filter (\<lambda>c. is_word c \<or> is_space c \<or> c = CHR ''-'') s"

text \<open>\<open>.replace(/[\s_-]+/g, '-')\<close>: every maximal run of separators becomes one hyphen.\<close>

definition is_sep :: "char \<Rightarrow> bool" where
  "is_sep c = (is_space c \<or> c = CHR ''_'' \<or> c = CHR ''-'')"

function hyphenate :: "string \<Rightarrow> string" where
  "hyphenate [] = []"
| "hyphenate (c # cs) =
     (if is_sep c then CHR ''-'' # hyphenate (dropWhile is_sep cs) else c # hyphenate cs)"
  by pat_completeness auto
termination
  by (relation "measure length") (auto simp: length_dropWhile_le less_Suc_eq_le)

text \<open>\<open>.replace(/^-+|-+$/g, '')\<close>: drop the leading and the trailing hyphens.\<close>

definition strip_hyphens :: "string \<Rightarrow> string" where
  "strip_hyphens s =
     rev (dropWhile (\<lambda>c. c = CHR ''-'') (rev (dropWhile (\<lambda>c. c = CHR ''-'') s)))"

text \<open>
  \<open>generateSlug(title, year = null)\<close>. The year is appended when it is truthy; the
  importer passes \<open>date?.getFullYear()\<close>, a number or \<open>undefined\<close>.
\<close>

definition generateSlug :: "string \<Rightarrow> jsval \<Rightarrow> string" where
  "generateSlug title year =
     (let baseSlug = strip_hyphens (hyphenate (remove_special (trim (toLowerCase title))))
      in if truthy year then baseSlug @ CHR ''-'' # to_string year else baseSlug)"


section \<open>Filter query builder (\<open>utils/helpers.js\<close>)\<close>

text \<open>
  The conditions the builder puts into a query object: a plain value (equality),
  \<open>{ $in: [...] }\<close> and \<open>{ $gte: n }\<close>. A query object is the list of its keys with
  their conditions.
\<close>

datatype cond = Equals jsval | In "jsval list" | Gte jsnum

type_synonym query = "(string \<times> cond) list"

text \<open>\<open>String.prototype.split(',')\<close>.\<close>

fun split_comma :: "string \<Rightarrow> string list" where
  "split_comma [] = [[]]"
| "split_comma (c # cs) =
     (if c = CHR '','' then [] # split_comma cs
      else (case split_comma cs of
              [] \<Rightarrow> [[c]]
            | w # ws \<Rightarrow> (c # w) # ws))"

text \<open>
  The \<open>switch (key)\<close> of \<open>buildFilterQuery\<close>: the condition stored under \<open>key\<close> for a
  value that passed the guard, or \<open>None\<close> when the branch stores nothing.
\<close>

definition filter_cond :: "string \<Rightarrow> jsval \<Rightarrow> cond option" where
  "filter_cond key v =
     (if key = ''genres'' then
        (case v of
           JStr s \<Rightarrow>
             (let genreArray = filter (\<lambda>g. g \<noteq> []) (map trim (split_comma s))
              in if length genreArray > 0 then Some (In (map JStr genreArray)) else None)
         | _ \<Rightarrow> None)
      else if key = ''language'' then
        (case v of JStr s \<Rightarrow> Some (In [v]) | _ \<Rightarrow> None)
      else if key = ''releaseYear'' then
        (if \<not> isNaN v then Some (Equals (num_val (parseInt v))) else None)
      else if key = ''type'' then Some (Equals v)
      else if key = ''quality'' then Some (Equals v)
      else if key = ''rating'' then
        (if \<not> isNaN v then Some (Gte (parseFloat v)) else None)
      else if key = ''adminStatus'' then Some (Equals v)
      else Some (Equals v))"

text \<open>The body of the \<open>forEach\<close> over \<open>Object.keys(filters)\<close>, for one key.\<close>

definition filter_step :: "(string \<times> jsval) list \<Rightarrow> query \<Rightarrow> string \<Rightarrow> query" where
  "filter_step filters q key =
     (let v = obj_get filters key in
      if truthy v \<and> trim (to_string v) \<noteq> [] then
        (case filter_cond key v of None \<Rightarrow> q | Some c \<Rightarrow> obj_set key c q)
      else q)"

definition buildFilterQuery :: "(string \<times> jsval) list \<Rightarrow> query" where
  "buildFilterQuery filters = foldl (filter_step filters) [] (obj_keys filters)"

subsection \<open>What a query matches\<close>

text \<open>
  The store's reading of a condition on a document field: a field holding an array
  matches when the array or one of its elements does; an absent field matches only a
  \<open>null\<close> operand.
\<close>

fun field_candidates :: "jsval \<Rightarrow> jsval list" where
  "field_candidates (JArr xs) = JArr xs # xs"
| "field_candidates v = [v]"

fun gte_num :: "jsval \<Rightarrow> jsnum \<Rightarrow> bool" where
  "gte_num (JNum n) (NumFin r) = (r \<le> of_int n)"
| "gte_num (JNum n) (NumInf pos) = (\<not> pos)"
| "gte_num (JNum n) NumNaN = False"
| "gte_num JNaN x = (x = NumNaN)"
| "gte_num v x = False"

fun matches_cond :: "cond \<Rightarrow> jsval option \<Rightarrow> bool" where
  "matches_cond (Equals v) None = (v = JNull)"
| "matches_cond (Equals v) (Some fv) = (v \<in> set (field_candidates fv))"
| "matches_cond (In vs) None = (JNull \<in> set vs)"
| "matches_cond (In vs) (Some fv) = list_ex (\<lambda>x. x \<in> set vs) (field_candidates fv)"
| "matches_cond (Gte x) None = False"
| "matches_cond (Gte x) (Some fv) = list_ex (\<lambda>y. gte_num y x) (field_candidates fv)"

definition matches :: "query \<Rightarrow> (string \<times> jsval) list \<Rightarrow> bool" where
  "matches q doc = list_all (\<lambda>kc. matches_cond (snd kc) (map_of doc (fst kc))) q"

subsection \<open>The admin ad listing (\<open>controllers/adController.js\<close>)\<close>

text \<open>
  The filter of \<open>getAllAds\<close>, from the query-string parameters \<open>type\<close>, \<open>placement\<close>,
  \<open>isActive\<close> and \<open>network\<close>.
\<close>

definition getAllAds_query :: "jsval \<Rightarrow> jsval \<Rightarrow> jsval \<Rightarrow> jsval \<Rightarrow> query" where
  "getAllAds_query ty placement isActive network =
     buildFilterQuery
       [(''type'', ty),
        (''placement'', placement),
        (''isActive'',
           if isActive = JStr ''true'' then JBool True
           else if isActive = JStr ''false'' then JBool False
           else JUndefined),
        (''network'', network)]"

section \<open>User model (\<open>models/User.js\<close>)\<close>

text \<open>
  A user document. \<open>password\<close> and \<open>refreshToken\<close> are declared \<open>select: false\<close>: they
  are on the document only when a query asked for them, hence the options (\<open>None\<close>: not
  loaded). A loaded refresh token is a string or \<open>null\<close>. Dates are milliseconds.
\<close>

record watch_entry =
  contentItem :: string
  contentType :: string
  addedAt :: int

record preferences =
  pref_language :: string
  theme :: string
  emailNotifications :: bool

record user =
  user_id :: string
  username :: string
  email :: string
  password :: "string option"
  role :: string
  avatar :: string
  user_isActive :: bool
  lastLogin :: "int option"
  refreshToken :: "jsval option"
  watchlist :: "watch_entry list"
  user_preferences :: preferences
  user_createdAt :: int
  user_updatedAt :: int

definition watch_entry_object :: "watch_entry \<Rightarrow> jsval" where
  "watch_entry_object w =
     JObj [(''contentItem'', JStr (contentItem w)),
           (''contentType'', JStr (contentType w)),
           (''addedAt'', JNum (addedAt w))]"

definition preferences_object :: "preferences \<Rightarrow> jsval" where
  "preferences_object p =
     JObj [(''language'', JStr (pref_language p)),
           (''theme'', JStr (theme p)),
           (''emailNotifications'', JBool (emailNotifications p))]"

text \<open>\<open>this.toObject()\<close>: the plain object of the paths present on the document.\<close>

definition toObject :: "user \<Rightarrow> (string \<times> jsval) list" where
  "toObject u =
     [(''_id'', JStr (user_id u)),
      (''username'', JStr (username u)),
      (''email'', JStr (email u))]
     @ (case password u of None \<Rightarrow> [] | Some p \<Rightarrow> [(''password'', JStr p)])
     @ [(''role'', JStr (role u)),
        (''avatar'', JStr (avatar u)),
        (''isActive'', JBool (user_isActive u)),
        (''lastLogin'', (case lastLogin u of None \<Rightarrow> JNull | Some t \<Rightarrow> JNum t))]
     @ (case refreshToken u of None \<Rightarrow> [] | Some t \<Rightarrow> [(''refreshToken'', t)])
     @ [(''watchlist'', JArr (map watch_entry_object (watchlist u))),
        (''preferences'', preferences_object (user_preferences u)),
        (''createdAt'', JNum (user_createdAt u)),
        (''updatedAt'', JNum (user_updatedAt u))]"

text \<open>\<open>userSchema.methods.toJSON\<close>: the object with the two secrets deleted.\<close>

definition toJSON :: "user \<Rightarrow> (string \<times> jsval) list" where
  "toJSON u =
     (let userObject = toObject u;
          userObject1 = obj_delete ''password'' userObject;
          userObject2 = obj_delete ''refreshToken'' userObject1
      in userObject2)"

section \<open>Ad model and ad serving (\<open>models/Ad.js\<close>, \<open>controllers/adController.js\<close>)\<close>

text \<open>
  A date path of a stored document: absent, \<open>null\<close>, or a date in milliseconds.
\<close>

datatype datefield = NoDate | NullDate | DateAt int

record ad =
  ad_id :: string
  ad_name :: string
  ad_type :: string
  placement :: string
  code :: string
  redirectUrl :: string
  ad_isActive :: bool
  priority :: int
  targetPages :: "string list"
  targetDevices :: "string list"
  targetCountries :: "string list"
  startDate :: datefield
  endDate :: datefield
  ad_createdAt :: int

text \<open>
  The store's operators on these fields: \<open>$lte\<close> and \<open>$gte\<close> against a date only match
  a date, \<open>$exists: false\<close> only matches an absent field, \<open>$in\<close> on an array field
  matches when one element is in the list.
\<close>

definition date_lte :: "datefield \<Rightarrow> int \<Rightarrow> bool" where
  "date_lte d now = (case d of DateAt t \<Rightarrow> t \<le> now | _ \<Rightarrow> False)"

definition date_gte :: "datefield \<Rightarrow> int \<Rightarrow> bool" where
  "date_gte d now = (case d of DateAt t \<Rightarrow> now \<le> t | _ \<Rightarrow> False)"

definition date_missing :: "datefield \<Rightarrow> bool" where
  "date_missing d = (d = NoDate)"

definition array_in :: "string list \<Rightarrow> string list \<Rightarrow> bool" where
  "array_in field vs = list_ex (\<lambda>x. x \<in> set vs) field"

text \<open>
  The query object that \<open>getActiveAdsByPlacement\<close> builds, as the predicate it is on
  an ad; \<open>now\<close> is \<open>new Date()\<close>. The two targeting clauses are pushed onto \<open>$and\<close> only
  when the requested value is not \<open>'all'\<close>.
\<close>

definition active_ads_query :: "int \<Rightarrow> string \<Rightarrow> string \<Rightarrow> string \<Rightarrow> ad \<Rightarrow> bool" where
  "active_ads_query now pl targetPage targetDevice a =
     (placement a = pl
      \<and> ad_isActive a = True
      \<and> (date_lte (startDate a) now \<or> date_missing (startDate a))
      \<and> ((date_gte (endDate a) now \<or> date_missing (endDate a))
         \<and> (if targetPage \<noteq> ''all''
             then array_in (targetPages a) [targetPage, ''all''] \<or> length (targetPages a) = 0
             else True)
         \<and> (if targetDevice \<noteq> ''all''
             then array_in (targetDevices a) [targetDevice, ''all''] \<or> length (targetDevices a) = 0
             else True)))"

text \<open>
  \<open>this.find(query).sort({ priority: -1, createdAt: -1 })\<close> over the ads of the
  collection.
\<close>

definition getActiveAdsByPlacement :: "int \<Rightarrow> ad list \<Rightarrow> string \<Rightarrow> string \<Rightarrow> string \<Rightarrow> ad list" where
  "getActiveAdsByPlacement now ads pl targetPage targetDevice =
     sort_key (\<lambda>a. (- priority a, - ad_createdAt a))
       (filter (active_ads_query now pl targetPage targetDevice) ads)"

text \<open>\<open>Array.prototype.slice(0, end)\<close> with a parsed \<open>end\<close>; \<open>NaN\<close> counts as 0.\<close>

definition slice_to :: "int option \<Rightarrow> 'a list \<Rightarrow> 'a list" where
  "slice_to e xs =
     (case e of
        None \<Rightarrow> []
      | Some n \<Rightarrow> if n < 0 then take (nat (int (length xs) + n)) xs else take (nat n) xs)"

record served_ad =
  served_id :: string
  served_name :: string
  served_type :: string
  served_placement :: string
  served_code :: string
  served_redirectUrl :: string
  served_priority :: int

definition serve :: "ad \<Rightarrow> served_ad" where
  "serve a =
     \<lparr> served_id = ad_id a, served_name = ad_name a, served_type = ad_type a,
       served_placement = placement a, served_code = code a,
       served_redirectUrl = redirectUrl a, served_priority = priority a \<rparr>"

text \<open>
  The country filter of the handler: applied only when a non-empty \<open>country\<close> parameter
  was sent.
\<close>

definition filter_by_country :: "string option \<Rightarrow> ad list \<Rightarrow> ad list" where
  "filter_by_country country_param ads =
     (case country_param of
        None \<Rightarrow> ads
      | Some targetCountry \<Rightarrow>
          if targetCountry \<noteq> [] then
            filter (\<lambda>a. length (targetCountries a) = 0
                        \<or> targetCountry \<in> set (targetCountries a)
                        \<or> ''all'' \<in> set (targetCountries a)) ads
          else ads)"

text \<open>
  The handler \<open>getAdsByPlacement\<close>: the query-string parameters \<open>page\<close>, \<open>device\<close>,
  \<open>country\<close> and \<open>limit\<close> are optional strings, with the defaults \<open>'all'\<close>, \<open>'all'\<close>,
  \<open>null\<close> and \<open>5\<close>. The result is the \<open>ads\<close> list of the response.
\<close>

definition getAdsByPlacement ::
  "int \<Rightarrow> ad list \<Rightarrow> string \<Rightarrow> string option \<Rightarrow> string option \<Rightarrow> string option
     \<Rightarrow> string option \<Rightarrow> served_ad list" where
  "getAdsByPlacement now collection pl page_param device_param country_param limit_param =
     (let targetPage = (case page_param of None \<Rightarrow> ''all'' | Some p \<Rightarrow> p);
          targetDevice = (case device_param of None \<Rightarrow> ''all'' | Some d \<Rightarrow> d);
          lim_val = (case limit_param of None \<Rightarrow> JNum 5 | Some l \<Rightarrow> JStr l);
          ads = getActiveAdsByPlacement now collection pl targetPage targetDevice;
          filteredAds = filter_by_country country_param ads
      in map serve (slice_to (parseInt lim_val) (sort_key (\<lambda>a. - priority a) filteredAds)))"

section \<open>Series model (\<open>models/Series.js\<close>)\<close>

record episode =
  episodeNumber :: int
  episode_title :: string
  episode_overview :: string
  episode_runtime :: int
  episode_views :: int
  episode_isActive :: bool

record season =
  seasonNumber :: int
  season_name :: string
  season_overview :: string
  season_posterPath :: string
  season_airDate :: "int option"
  episodes :: "episode list"

record series =
  series_id :: string
  title :: string
  slug :: string
  releaseYear :: int
  seasons :: "season list"
  numberOfSeasons :: int
  numberOfEpisodes :: int
  series_views :: int
  addedBy :: string
  lastModifiedBy :: "string option"

text \<open>
  What the object-document mapper and the \<open>slugify\<close> package contribute, taken as
  parameters: the slug function, the cast of a plain object pushed onto \<open>seasons\<close> or
  onto \<open>episodes\<close> to a sub-document of the schema (\<open>None\<close>: the cast or the
  sub-document's validators fail, which makes the next \<open>save\<close> reject), the validation
  that \<open>save\<close> runs before the \<open>pre('save')\<close> hook, and whether a plain object pushed
  onto a document array stays shared with the stored sub-document.
\<close>

record odm =
  slugify :: "string \<Rightarrow> string"
  cast_season :: "(string \<times> jsval) list \<Rightarrow> season option"
  cast_episode :: "jsval \<Rightarrow> episode option"
  validate :: "series \<Rightarrow> bool"
  push_shares :: bool

text \<open>
  The \<open>pre('save')\<close> hook. \<open>fresh\<close> is \<open>this.isModified('title') || this.isNew\<close>; the
  \<open>slug\<close> path is declared \<open>lowercase: true\<close>, so each assignment to it is lower-cased.
  The two counters are recomputed on every save.
\<close>

definition pre_save :: "odm \<Rightarrow> bool \<Rightarrow> series \<Rightarrow> series" where
  "pre_save m fresh this =
     (let this1 =
            (if fresh then
               (let s1 = toLowerCase (slugify m (title this));
                    s2 = (if releaseYear this \<noteq> 0
                          then toLowerCase (s1 @ CHR ''-'' # show_int (releaseYear this))
                          else s1)
                in this\<lparr>slug := s2\<rparr>)
             else this);
          totalEpisodes =
            foldl (\<lambda>acc sn. acc + int (length (episodes sn))) 0 (seasons this1)
      in this1\<lparr>numberOfEpisodes := totalEpisodes,
                numberOfSeasons := int (length (seasons this1))\<rparr>)"

text \<open>
  \<open>document.save()\<close> of a loaded document whose title was not touched: validation, then
  the hook; \<open>None\<close> is the rejected promise.
\<close>

definition save :: "odm \<Rightarrow> series \<Rightarrow> series option" where
  "save m this = (if validate m this then Some (pre_save m False this) else None)"

text \<open>Apply a change to the first element that satisfies a test (the one \<open>find\<close> returns).\<close>

fun update_first :: "('a \<Rightarrow> bool) \<Rightarrow> ('a \<Rightarrow> 'a) \<Rightarrow> 'a list \<Rightarrow> 'a list" where
  "update_first P f [] = []"
| "update_first P f (x # xs) = (if P x then f x # xs else x # update_first P f xs)"

text \<open>The default season name, \<open>seasonNumber === 0 ? 'Specials' : `Season ${seasonNumber}`\<close>.\<close>

definition default_season_name :: "jsval \<Rightarrow> string" where
  "default_season_name sn = (if sn = JNum 0 then ''Specials'' else ''Season '' @ to_string sn)"


section \<open>Series request handlers (\<open>controllers/seriesController.js\<close>)\<close>

text \<open>
  The collection maps an id to its document. A handler returns its reply (status,
  message and, on success, the saved series) and the collection after the request.
\<close>

type_synonym store = "string \<Rightarrow> series option"

datatype reply = Reply nat string "series option"

record requester =
  req_id :: string
  req_role :: string

definition access_denied :: "requester \<Rightarrow> series \<Rightarrow> bool" where
  "access_denied usr s = (req_role usr \<noteq> ''admin'' \<and> addedBy s \<noteq> req_id usr)"

text \<open>\<open>a || b\<close> on values.\<close>

definition js_or :: "jsval \<Rightarrow> jsval \<Rightarrow> jsval" where
  "js_or a b = (if truthy a then a else b)"

text \<open>\<open>POST /:id/seasons\<close>; \<open>body\<close> is \<open>req.body\<close>.\<close>

definition addSeason ::
  "odm \<Rightarrow> store \<Rightarrow> requester \<Rightarrow> string \<Rightarrow> (string \<times> jsval) list \<Rightarrow> reply \<times> store" where
  "addSeason m db usr sid body =
     (let sn = obj_get body ''seasonNumber'';
          name = obj_get body ''name'';
          overview = obj_get body ''overview'';
          posterPath = obj_get body ''posterPath'';
          airDate = obj_get body ''airDate''
      in case db sid of
           None \<Rightarrow> (Reply 404 ''Series not found'' None, db)
         | Some s \<Rightarrow>
             if access_denied usr s then (Reply 403 ''Access denied'' None, db)
             else if find (\<lambda>x. strict_eq_num (seasonNumber x) sn) (seasons s) \<noteq> None
             then (Reply 409 ''Season already exists'' None, db)
             else
               (case cast_season m
                       [(''seasonNumber'', sn),
                        (''name'', js_or name (JStr (default_season_name sn))),
                        (''overview'', js_or overview (JStr [])),
                        (''posterPath'', js_or posterPath (JStr [])),
                        (''airDate'', js_or airDate JNull),
                        (''episodes'', JArr [])] of
                  None \<Rightarrow> (Reply 500 ''Failed to add season'' None, db)
                | Some created \<Rightarrow>
                    (case save m (s\<lparr>seasons := seasons s @ [created],
                                     lastModifiedBy := Some (req_id usr)\<rparr>) of
                       None \<Rightarrow> (Reply 500 ''Failed to add season'' None, db)
                     | Some saved \<Rightarrow>
                         (Reply 201 ''Season added successfully'' (Some saved),
                          db(sid \<mapsto> saved)))))"

text \<open>
  \<open>POST /:id/season/:seasonNumber/episodes\<close>; \<open>param\<close> is the path parameter (a
  string, compared with \<open>==\<close>), \<open>episodeData\<close> is \<open>req.body\<close> (its \<open>episodeNumber\<close> is
  compared with \<open>===\<close>). The route's validation chain is not consulted by the handler.
\<close>

definition addEpisode ::
  "odm \<Rightarrow> store \<Rightarrow> requester \<Rightarrow> string \<Rightarrow> string \<Rightarrow> (string \<times> jsval) list \<Rightarrow> reply \<times> store" where
  "addEpisode m db usr sid param episodeData =
     (case db sid of
        None \<Rightarrow> (Reply 404 ''Series not found'' None, db)
      | Some s \<Rightarrow>
          if access_denied usr s then (Reply 403 ''Access denied'' None, db)
          else
            (case find (\<lambda>x. loose_eq_num (seasonNumber x) (JStr param)) (seasons s) of
               None \<Rightarrow> (Reply 404 ''Season not found'' None, db)
             | Some found \<Rightarrow>
                 if find (\<lambda>e. strict_eq_num (episodeNumber e)
                                  (obj_get episodeData ''episodeNumber''))
                      (episodes found) \<noteq> None
                 then (Reply 409 ''Episode already exists'' None, db)
                 else
                   (case cast_episode m (JObj episodeData) of
                      None \<Rightarrow> (Reply 500 ''Failed to add episode'' None, db)
                    | Some e \<Rightarrow>
                        (case save m (s\<lparr>seasons :=
                                  update_first
                                    (\<lambda>x. loose_eq_num (seasonNumber x) (JStr param))
                                    (\<lambda>x. x\<lparr>episodes := episodes x @ [e]\<rparr>) (seasons s),
                                lastModifiedBy := Some (req_id usr)\<rparr>) of
                           None \<Rightarrow> (Reply 500 ''Failed to add episode'' None, db)
                         | Some saved \<Rightarrow>
                             (Reply 201 ''Episode added successfully'' (Some saved),
                              db(sid \<mapsto> saved))))))"

text \<open>A sequence of requests against the collection, with the replies in order.\<close>

datatype request =
    AddSeason requester string "(string \<times> jsval) list"
  | AddEpisode requester string string "(string \<times> jsval) list"

fun handle :: "odm \<Rightarrow> store \<Rightarrow> request \<Rightarrow> reply \<times> store" where
  "handle m db (AddSeason usr sid body) = addSeason m db usr sid body"
| "handle m db (AddEpisode usr sid param body) = addEpisode m db usr sid param body"

fun run :: "odm \<Rightarrow> store \<Rightarrow> request list \<Rightarrow> reply list \<times> store" where
  "run m db [] = ([], db)"
| "run m db (r # rs) =
     (let (rep, db1) = handle m db r;
          (reps, db2) = run m db1 rs
      in (rep # reps, db2))"

text \<open>The two derived counters agree with the season and episode lists.\<close>

definition counts_ok :: "series \<Rightarrow> bool" where
  "counts_ok s =
     (numberOfEpisodes s = sum_list (map (\<lambda>sn. int (length (episodes sn))) (seasons s))
      \<and> numberOfSeasons s = int (length (seasons s)))"

definition saved_of :: "reply \<Rightarrow> series option" where
  "saved_of r = (case r of Reply c msg d \<Rightarrow> d)"

subsection \<open>A mapper instance for the worked examples\<close>

text \<open>
  The instance used in the examples below reads a plain object field by field against
  the season and episode schemas: a field must already hold a value of its declared type,
  absent optional fields take the schema's defaults, \<open>required\<close> and \<open>min\<close> are checked,
  and any other object is rejected. It validates every document and shares pushed
  objects.
\<close>

definition string_field :: "(string \<times> jsval) list \<Rightarrow> string \<Rightarrow> string \<Rightarrow> string option" where
  "string_field obj k dflt =
     (case obj_get obj k of
        JStr s \<Rightarrow> Some s
      | JUndefined \<Rightarrow> Some dflt
      | _ \<Rightarrow> None)"

definition example_cast_episode :: "jsval \<Rightarrow> episode option" where
  "example_cast_episode v =
     (case v of
        JObj obj \<Rightarrow>
          (case (obj_get obj ''episodeNumber'', obj_get obj ''title'',
                 string_field obj ''overview'' []) of
             (JNum n, JStr t, Some ov) \<Rightarrow>
               if n < 1 \<or> trim t = [] \<or> length (trim t) > 200 \<or> length ov > 1000 then None
               else Some \<lparr> episodeNumber = n, episode_title = trim t, episode_overview = ov,
                           episode_runtime = 0, episode_views = 0, episode_isActive = True \<rparr>
           | _ \<Rightarrow> None)
      | _ \<Rightarrow> None)"

definition example_cast_season :: "(string \<times> jsval) list \<Rightarrow> season option" where
  "example_cast_season obj =
     (case (obj_get obj ''seasonNumber'',
            string_field obj ''name'' (default_season_name (obj_get obj ''seasonNumber'')),
            string_field obj ''overview'' [],
            string_field obj ''posterPath'' [],
            obj_get obj ''episodes'') of
        (JNum n, Some nm, Some ov, Some pp, JArr es) \<Rightarrow>
          if n < 0 \<or> length ov > 1000 \<or> list_ex (\<lambda>e. example_cast_episode e = None) es
          then None
          else Some \<lparr> seasonNumber = n, season_name = nm, season_overview = ov,
                      season_posterPath = pp,
                      season_airDate = (case obj_get obj ''airDate'' of
                                          JNum t \<Rightarrow> Some t | _ \<Rightarrow> None),
                      episodes = map (\<lambda>e. the (example_cast_episode e)) es \<rparr>
      | _ \<Rightarrow> None)"

definition example_odm :: odm where
  "example_odm =
     \<lparr> slugify = (\<lambda>t. t),
       cast_season = example_cast_season,
       cast_episode = example_cast_episode,
       validate = (\<lambda>s. True),
       push_shares = True \<rparr>"

text \<open>A series without seasons, owned by \<open>u1\<close>, and the collection that holds it.\<close>

definition example_series :: series where
  "example_series =
     \<lparr> series_id = ''s1'', title = ''Dark'', slug = ''dark-2017'', releaseYear = 2017,
       seasons = [], numberOfSeasons = 0, numberOfEpisodes = 0, series_views = 0,
       addedBy = ''u1'', lastModifiedBy = None \<rparr>"

definition example_store :: store where
  "example_store = Map.empty(''s1'' \<mapsto> example_series)"

definition example_owner :: requester where
  "example_owner = \<lparr> req_id = ''u1'', req_role = ''moderator'' \<rparr>"

definition status_of :: "reply \<Rightarrow> nat" where
  "status_of r = (case r of Reply c msg d \<Rightarrow> c)"

text \<open>
  The example series after season 1 was added, and after episode 1 of season 1 was added.
\<close>

definition example_series1 :: series where
  "example_series1 =
     example_series
       \<lparr> seasons := [\<lparr> seasonNumber = 1, season_name = ''Season 1'', season_overview = [],
                       season_posterPath = [], season_airDate = None, episodes = [] \<rparr>],
         numberOfSeasons := 1,
         lastModifiedBy := Some ''u1'' \<rparr>"

definition example_series2 :: series where
  "example_series2 =
     example_series
       \<lparr> seasons := [\<lparr> seasonNumber = 1, season_name = ''Season 1'', season_overview = [],
                       season_posterPath = [], season_airDate = None,
                       episodes = [\<lparr> episodeNumber = 1, episode_title = ''Pilot'',
                                     episode_overview = [], episode_runtime = 0,
                                     episode_views = 0, episode_isActive = True \<rparr>] \<rparr>],
         numberOfSeasons := 1,
         numberOfEpisodes := 1,
         lastModifiedBy := Some ''u1'' \<rparr>"

definition example_requests :: "request list" where
  "example_requests =
     [AddSeason example_owner ''s1'' [(''seasonNumber'', JNum 1)],
      AddEpisode example_owner ''s1'' ''1''
        [(''episodeNumber'', JNum 1), (''title'', JStr ''Pilot'')],
      AddSeason example_owner ''s1'' [(''seasonNumber'', JNum 1)],
      AddEpisode example_owner ''s1'' ''2''
        [(''episodeNumber'', JNum 1), (''title'', JStr ''Pilot'')]]"

section \<open>Sort orders and the combined content feed\<close>

subsection \<open>\<open>buildSortQuery\<close> (\<open>utils/helpers.js\<close>)\<close>

text \<open>A sort object is the list of its fields with their directions, 1 or -1.\<close>

type_synonym sort_spec = "(string \<times> int) list"

definition sortMapping :: "(string \<times> sort_spec) list" where
  "sortMapping =
     [(''newest'', [(''createdAt'', - 1)]),
      (''oldest'', [(''createdAt'', 1)]),
      (''rating'', [(''rating'', - 1), (''imdbRating'', - 1)]),
      (''views'', [(''views'', - 1)]),
      (''alphabetical'', [(''title'', 1)]),
      (''year'', [(''releaseYear'', - 1)]),
      (''trending'', [(''views'', - 1), (''rating'', - 1), (''createdAt'', - 1)])]"

definition buildSortQuery :: "string \<Rightarrow> string \<Rightarrow> sort_spec" where
  "buildSortQuery sortBy sortOrder =
     (let order = (if toLowerCase sortOrder = ''asc'' then 1 else - 1)
      in case map_of sortMapping sortBy of
           Some spec \<Rightarrow> spec
         | None \<Rightarrow> [(sortBy, order)])"

subsection \<open>Documents of the feed\<close>

text \<open>
  The fields of a movie or series document that the orderings read. Ratings are
  rationals, dates are milliseconds. The feed tags each document with its content type.
\<close>

record content_doc =
  doc_id :: string
  doc_title :: string
  views :: int
  rating :: rat
  imdbRating :: rat
  likes :: int
  doc_releaseYear :: int
  createdAt :: int

record content_item = content_doc +
  item_contentType :: string

definition tag :: "string \<Rightarrow> content_doc \<Rightarrow> content_item" where
  "tag ct d = content_doc.extend d (content_item.fields ct)"

subsection \<open>Stable sorting\<close>

text \<open>
  Both the store's \<open>sort\<close> and \<open>Array.prototype.sort\<close> are modelled as the stable
  insertion sort of a comparison \<open>le x y\<close>, "x may stand before y"; for the store, whose
  order among documents equal in every sort field is not specified, this fixes that
  order to the order of the input.
\<close>

fun insert_by :: "('a \<Rightarrow> 'a \<Rightarrow> bool) \<Rightarrow> 'a \<Rightarrow> 'a list \<Rightarrow> 'a list" where
  "insert_by le x [] = [x]"
| "insert_by le x (y # ys) = (if le x y then x # y # ys else y # insert_by le x ys)"

definition stable_sort_by :: "('a \<Rightarrow> 'a \<Rightarrow> bool) \<Rightarrow> 'a list \<Rightarrow> 'a list" where
  "stable_sort_by le xs = foldr (insert_by le) xs []"

text \<open>\<open>array.sort(compare)\<close> with a numeric comparator.\<close>

definition js_sort :: "('a \<Rightarrow> 'a \<Rightarrow> rat) \<Rightarrow> 'a list \<Rightarrow> 'a list" where
  "js_sort compare xs = stable_sort_by (\<lambda>a b. compare a b \<le> 0) xs"

subsection \<open>The store's sort\<close>

datatype fieldval = FNull | FNum rat | FStr string

definition field_value :: "string \<Rightarrow> 'a content_doc_scheme \<Rightarrow> fieldval" where
  "field_value f d =
     (if f = ''title'' then FStr (doc_title d)
      else if f = ''views'' then FNum (of_int (views d))
      else if f = ''rating'' then FNum (rating d)
      else if f = ''imdbRating'' then FNum (imdbRating d)
      else if f = ''likes'' then FNum (of_int (likes d))
      else if f = ''releaseYear'' then FNum (of_int (doc_releaseYear d))
      else if f = ''createdAt'' then FNum (of_int (createdAt d))
      else if f = ''_id'' then FStr (doc_id d)
      else FNull)"

fun cmp_string :: "string \<Rightarrow> string \<Rightarrow> int" where
  "cmp_string [] [] = 0"
| "cmp_string [] (y # ys) = - 1"
| "cmp_string (x # xs) [] = 1"
| "cmp_string (x # xs) (y # ys) =
     (if (of_char x :: nat) < of_char y then - 1
      else if (of_char y :: nat) < of_char x then 1
      else cmp_string xs ys)"

text \<open>The store's order of values: \<open>null\<close>, then numbers, then strings.\<close>

fun cmp_fieldval :: "fieldval \<Rightarrow> fieldval \<Rightarrow> int" where
  "cmp_fieldval FNull FNull = 0"
| "cmp_fieldval FNull v = - 1"
| "cmp_fieldval (FNum a) FNull = 1"
| "cmp_fieldval (FNum a) (FNum b) = (if a < b then - 1 else if b < a then 1 else 0)"
| "cmp_fieldval (FNum a) (FStr t) = - 1"
| "cmp_fieldval (FStr s) (FStr t) = cmp_string s t"
| "cmp_fieldval (FStr s) v = 1"

fun cmp_spec :: "sort_spec \<Rightarrow> 'a content_doc_scheme \<Rightarrow> 'a content_doc_scheme \<Rightarrow> int" where
  "cmp_spec [] a b = 0"
| "cmp_spec ((f, dir) # rest) a b =
     (let c = cmp_fieldval (field_value f a) (field_value f b)
      in if c \<noteq> 0 then dir * c else cmp_spec rest a b)"

definition db_sort :: "sort_spec \<Rightarrow> 'a content_doc_scheme list \<Rightarrow> 'a content_doc_scheme list" where
  "db_sort spec ds = stable_sort_by (\<lambda>a b. cmp_spec spec a b \<le> 0) ds"

subsection \<open>\<open>getContent\<close> (\<open>controllers/contentController.js\<close>)\<close>

text \<open>The trending score of the in-memory sort, with exact arithmetic.\<close>

definition trendingScore :: "'a content_doc_scheme \<Rightarrow> rat" where
  "trendingScore a = of_int (views a) * (7 / 10) + rating a * 10 + of_int (likes a) * (3 / 10)"

text \<open>
  The comparator of the re-sort of the combined list; \<open>localeCompare\<close> is the
  collation of the runtime, a parameter.
\<close>

definition content_compare ::
  "(string \<Rightarrow> string \<Rightarrow> int) \<Rightarrow> string \<Rightarrow> content_item \<Rightarrow> content_item \<Rightarrow> rat" where
  "content_compare localeCompare sortBy a b =
     (if sortBy = ''newest'' then of_int (createdAt b) - of_int (createdAt a)
      else if sortBy = ''oldest'' then of_int (createdAt a) - of_int (createdAt b)
      else if sortBy = ''rating'' then rating b - rating a
      else if sortBy = ''views'' then of_int (views b) - of_int (views a)
      else if sortBy = ''alphabetical'' then of_int (localeCompare (doc_title a) (doc_title b))
      else if sortBy = ''year'' then of_int (doc_releaseYear b) - of_int (doc_releaseYear a)
      else if sortBy = ''trending'' then trendingScore b - trendingScore a
      else of_int (createdAt b) - of_int (createdAt a))"

text \<open>
  The list \<open>allContent\<close> before pagination. \<open>movies\<close> and \<open>series\<close> are the documents
  of the two collections that match the query of the request, in the order in which the
  store holds them; \<open>ty\<close> is the \<open>type\<close> parameter.
\<close>

definition allContent ::
  "(string \<Rightarrow> string \<Rightarrow> int) \<Rightarrow> string \<Rightarrow> string \<Rightarrow> string \<Rightarrow> content_doc list \<Rightarrow> content_doc list
     \<Rightarrow> content_item list" where
  "allContent localeCompare ty sortBy sortOrder movies series =
     (let sortConfig = buildSortQuery sortBy sortOrder;
          part1 = (if ty = ''all'' \<or> ty = ''movie''
                   then map (tag ''Movie'') (db_sort sortConfig movies) else []);
          part2 = (if ty = ''all'' \<or> ty = ''series'' \<or> ty = ''anime'' \<or> ty = ''kdrama''
                   then map (tag ''Series'') (db_sort sortConfig series) else []);
          combined = part1 @ part2
      in if ty = ''all'' then js_sort (content_compare localeCompare sortBy) combined
         else combined)"

text \<open>
  \<open>Array.prototype.slice(start, end)\<close> on parsed numbers: \<open>NaN\<close> counts as 0, a
  negative index counts from the end.
\<close>

definition slice_index :: "nat \<Rightarrow> int option \<Rightarrow> nat" where
  "slice_index len k =
     (case k of
        None \<Rightarrow> 0
      | Some n \<Rightarrow> if n < 0 then nat (max (int len + n) 0) else min (nat n) len)"

definition js_slice :: "int option \<Rightarrow> int option \<Rightarrow> 'a list \<Rightarrow> 'a list" where
  "js_slice start end xs =
     (let from = slice_index (length xs) start;
          to = slice_index (length xs) end
      in take (to - from) (drop from xs))"

text \<open>
  The handler: the page of the feed and its pagination record. \<open>page\<close> and \<open>limit\<close>
  are the optional query-string parameters, with the defaults 1 and 12.
\<close>

definition getContent ::
  "(string \<Rightarrow> string \<Rightarrow> int) \<Rightarrow> string option \<Rightarrow> string option \<Rightarrow> string \<Rightarrow> string \<Rightarrow> string
     \<Rightarrow> content_doc list \<Rightarrow> content_doc list \<Rightarrow> content_item list \<times> content_item pagination" where
  "getContent localeCompare page_param limit_param ty sortBy sortOrder movies series =
     (let pageNum = parseInt (case page_param of None \<Rightarrow> JNum 1 | Some p \<Rightarrow> JStr p);
          limitNum = parseInt (case limit_param of None \<Rightarrow> JNum 12 | Some l \<Rightarrow> JStr l);
          skip = (case (pageNum, limitNum) of
                    (Some p, Some l) \<Rightarrow> Some ((p - 1) * l)
                  | _ \<Rightarrow> None);
          upto = (case (skip, limitNum) of
                    (Some s, Some l) \<Rightarrow> Some (s + l)
                  | _ \<Rightarrow> None);
          feed = allContent localeCompare ty sortBy sortOrder movies series;
          totalCount = int (length feed);
          paginatedContent = js_slice skip upto feed
      in (paginatedContent,
          createPagination (num_val pageNum) (num_val limitNum) totalCount paginatedContent))"

text \<open>
  \<open>x\<close> stands before \<open>y\<close> in a list: the first \<open>x\<close> has a \<open>y\<close> after it.
\<close>

fun precedes :: "'a \<Rightarrow> 'a \<Rightarrow> 'a list \<Rightarrow> bool" where
  "precedes x y [] = False"
| "precedes x y (z # zs) = (if z = x then y \<in> set zs else precedes x y zs)"

text \<open>Three documents with equal views, rating and likes, for the worked examples.\<close>

definition example_movie_old :: content_doc where
  "example_movie_old =
     \<lparr> doc_id = ''m1'', doc_title = ''Heat'', views = 10, rating = 8, imdbRating = 8,
       likes = 2, doc_releaseYear = 1995, createdAt = 100 \<rparr>"

definition example_movie_new :: content_doc where
  "example_movie_new =
     \<lparr> doc_id = ''m2'', doc_title = ''Ronin'', views = 10, rating = 8, imdbRating = 7,
       likes = 2, doc_releaseYear = 1998, createdAt = 200 \<rparr>"

definition example_series_new :: content_doc where
  "example_series_new =
     \<lparr> doc_id = ''s1'', doc_title = ''Dark'', views = 10, rating = 8, imdbRating = 8,
       likes = 2, doc_releaseYear = 2017, createdAt = 300 \<rparr>"

section \<open>Properties\<close>

lemma math_ceil_div_code: "math_ceil_div a b = - ((- a) div b)"
  by (simp add: math_ceil_div_def ceiling_divide_eq_div)

lemma math_ceil_div_zero: "math_ceil_div 0 b = 0"
  by (simp add: math_ceil_div_def)

subsection \<open>Pagination with an empty result set\<close>

text \<open>
  C2 (as the code has it). For every page and limit argument and \<open>total = 0\<close>,
  \<open>createPagination\<close> returns \<open>totalPages = 0\<close>; \<open>hasPrevPage\<close> is true exactly when
  the current page is greater than 1 (the page is not clamped to the number of pages), and
  \<open>hasNextPage\<close> is true exactly when the current page is negative, so it is false for
  every current page from 0 upwards.
\<close>

theorem createPagination_total_zero:
  "totalPages (createPagination pg lm 0 ds) = 0
   \<and> hasNextPage (createPagination pg lm 0 ds) = (page (createPagination pg lm 0 ds) < 0)
   \<and> hasPrevPage (createPagination pg lm 0 ds) = (1 < page (createPagination pg lm 0 ds))"
  by (simp add: createPagination_def Let_def math_ceil_div_zero)

theorem createPagination_total_zero_witness:
  "totalPages (createPagination (JStr ''1'') (JStr ''12'') 0 ([] :: nat list)) = 0
   \<and> hasNextPage (createPagination (JStr ''1'') (JStr ''12'') 0 ([] :: nat list))
       = (page (createPagination (JStr ''1'') (JStr ''12'') 0 ([] :: nat list)) < 0)
   \<and> hasPrevPage (createPagination (JStr ''1'') (JStr ''12'') 0 ([] :: nat list))
       = (1 < page (createPagination (JStr ''1'') (JStr ''12'') 0 ([] :: nat list)))"
  by (rule createPagination_total_zero [of "JStr ''1''" "JStr ''12''" "[] :: nat list"])

text \<open>
  The claim as stated fails on page 2 of an empty result set, where \<open>hasPrevPage\<close> is
  true, and on a negative page, where \<open>hasNextPage\<close> is true.
\<close>

theorem createPagination_total_zero_counterexample:
  "hasPrevPage (createPagination (JNum 2) (JNum 12) 0 ([] :: nat list))
   \<and> hasNextPage (createPagination (JNum (- 1)) (JNum 12) 0 ([] :: nat list))"
  by code_simp

subsection \<open>Slug generator\<close>














text \<open>The scenario of the specification: \<open>The Matrix\<close>, 1999.\<close>

lemma generateSlug_the_matrix:
  "generateSlug ''The Matrix'' (JNum 1999) = ''the-matrix-1999''"
  by code_simp

subsection \<open>Filter query builder\<close>

lemma falsy_values:
  "\<not> truthy v \<longleftrightarrow>
     v = JUndefined \<or> v = JNull \<or> v = JBool False \<or> v = JNum 0 \<or> v = JNaN \<or> v = JStr []"
  by (cases v) auto

lemma obj_set_keys: "fst ` set (obj_set k c q) = insert k (fst ` set q)"
  by (induction k c q rule: obj_set.induct) auto

lemma filter_step_keys:
  "k \<in> fst ` set (filter_step fs q key) \<Longrightarrow>
     k \<in> fst ` set q \<or> (k = key \<and> truthy (obj_get fs key))"
  by (auto simp: filter_step_def Let_def obj_set_keys split: if_splits option.splits)

lemma foldl_filter_step_keys:
  "k \<in> fst ` set (foldl (filter_step fs) q ks) \<Longrightarrow>
     k \<in> fst ` set q \<or> (k \<in> set ks \<and> truthy (obj_get fs k))"
proof (induction ks arbitrary: q)
  case Nil
  then show ?case by simp
next
  case (Cons a ks)
  from Cons.IH [of "filter_step fs q a"] Cons.prems
  have "k \<in> fst ` set (filter_step fs q a) \<or> (k \<in> set ks \<and> truthy (obj_get fs k))"
    by simp
  then show ?case using filter_step_keys [of k fs q a] by auto
qed

lemma buildFilterQuery_keys:
  "k \<in> fst ` set (buildFilterQuery fs) \<Longrightarrow> truthy (obj_get fs k)"
  using foldl_filter_step_keys [of k fs "[]" "obj_keys fs"]
  by (auto simp: buildFilterQuery_def)

lemma buildFilterQuery_genres:
  "buildFilterQuery [(''genres'', JStr ''Action, Comedy'')]
     = [(''genres'', In [JStr ''Action'', JStr ''Comedy''])]"
  by code_simp

text \<open>
  C9. For the input \<open>{genres: "Action, Comedy"}\<close> the builder returns
  \<open>{genres: {$in: ["Action", "Comedy"]}}\<close>, and a document whose \<open>genres\<close> field is an
  array matches it exactly when the array contains \<open>"Action"\<close> or contains \<open>"Comedy"\<close>:
  one of the two is enough.
\<close>

theorem buildFilterQuery_genres_any_of:
  "buildFilterQuery [(''genres'', JStr ''Action, Comedy'')]
     = [(''genres'', In [JStr ''Action'', JStr ''Comedy''])]
   \<and> (map_of doc ''genres'' = Some (JArr gs) \<longrightarrow>
        matches (buildFilterQuery [(''genres'', JStr ''Action, Comedy'')]) doc
          = (JStr ''Action'' \<in> set gs \<or> JStr ''Comedy'' \<in> set gs))"
  by (auto simp: buildFilterQuery_genres matches_def list_ex_iff)

theorem buildFilterQuery_genres_any_of_witness:
  "map_of [(''title'', JStr ''Heat''), (''genres'', JArr [JStr ''Action'', JStr ''Crime''])] ''genres''
     = Some (JArr [JStr ''Action'', JStr ''Crime''])
   \<and> JStr ''Comedy'' \<notin> set [JStr ''Action'', JStr ''Crime'']
   \<and> matches (buildFilterQuery [(''genres'', JStr ''Action, Comedy'')])
        [(''title'', JStr ''Heat''), (''genres'', JArr [JStr ''Action'', JStr ''Crime''])]"
proof -
  have m: "map_of [(''title'', JStr ''Heat''),
                   (''genres'', JArr [JStr ''Action'', JStr ''Crime''])] ''genres''
             = Some (JArr [JStr ''Action'', JStr ''Crime''])"
    by simp
  have n: "JStr ''Comedy'' \<notin> set [JStr ''Action'', JStr ''Crime'']" by simp
  from m buildFilterQuery_genres_any_of
    [of "[(''title'', JStr ''Heat''), (''genres'', JArr [JStr ''Action'', JStr ''Crime''])]"
        "[JStr ''Action'', JStr ''Crime'']"]
  have "matches (buildFilterQuery [(''genres'', JStr ''Action, Comedy'')])
          [(''title'', JStr ''Heat''), (''genres'', JArr [JStr ''Action'', JStr ''Crime''])]
        = (JStr ''Action'' \<in> set [JStr ''Action'', JStr ''Crime'']
           \<or> JStr ''Comedy'' \<in> set [JStr ''Action'', JStr ''Crime''])"
    by blast
  then have "matches (buildFilterQuery [(''genres'', JStr ''Action, Comedy'')])
          [(''title'', JStr ''Heat''), (''genres'', JArr [JStr ''Action'', JStr ''Crime''])]"
    by simp
  with m n show ?thesis by blast
qed

text \<open>
  C10. A filter key whose value is falsy (\<open>false\<close>, \<open>0\<close>, \<open>NaN\<close>, the empty string,
  \<open>null\<close>, \<open>undefined\<close>) gets no entry in the query. In particular
  \<open>buildFilterQuery({isActive: false})\<close> is the empty query, which matches every
  document, and the admin ad listing builds the same query for \<open>isActive=false\<close> as for
  no \<open>isActive\<close> parameter at all.
\<close>

theorem buildFilterQuery_drops_falsy:
  "(\<not> truthy (obj_get fs k) \<longrightarrow> map_of (buildFilterQuery fs) k = None)
   \<and> buildFilterQuery [(''isActive'', JBool False)] = []
   \<and> matches (buildFilterQuery [(''isActive'', JBool False)]) doc
   \<and> getAllAds_query ty pl (JStr ''false'') nw = getAllAds_query ty pl JUndefined nw
   \<and> map_of (getAllAds_query ty pl (JStr ''false'') nw) ''isActive'' = None"
proof (intro conjI impI)
  assume "\<not> truthy (obj_get fs k)"
  then have "k \<notin> fst ` set (buildFilterQuery fs)" using buildFilterQuery_keys by blast
  then show "map_of (buildFilterQuery fs) k = None" by (simp add: map_of_eq_None_iff)
next
  show e: "buildFilterQuery [(''isActive'', JBool False)] = []" by code_simp
  show "matches (buildFilterQuery [(''isActive'', JBool False)]) doc"
    by (simp add: e matches_def)
next
  show "getAllAds_query ty pl (JStr ''false'') nw = getAllAds_query ty pl JUndefined nw"
    by (simp add: getAllAds_query_def buildFilterQuery_def obj_keys_def filter_step_def
        obj_get_def)
  have "\<not> truthy (obj_get [(''type'', ty), (''placement'', pl), (''isActive'', JBool False),
                           (''network'', nw)] ''isActive'')"
    by (simp add: obj_get_def)
  then have "''isActive'' \<notin> fst ` set (getAllAds_query ty pl (JStr ''false'') nw)"
    unfolding getAllAds_query_def using buildFilterQuery_keys by fastforce
  then show "map_of (getAllAds_query ty pl (JStr ''false'') nw) ''isActive'' = None"
    by (simp add: map_of_eq_None_iff)
qed

theorem buildFilterQuery_drops_falsy_witness:
  "\<not> truthy (obj_get [(''type'', JStr ''Banner''), (''priority'', JNum 0)] ''priority'')
   \<and> map_of (buildFilterQuery [(''type'', JStr ''Banner''), (''priority'', JNum 0)]) ''priority''
       = None
   \<and> map_of (getAllAds_query (JStr ''Banner'') JUndefined (JStr ''false'') JUndefined) ''isActive''
       = None"
proof -
  have f: "\<not> truthy (obj_get [(''type'', JStr ''Banner''), (''priority'', JNum 0)] ''priority'')"
    by (simp add: obj_get_def)
  from f buildFilterQuery_drops_falsy
    [of "[(''type'', JStr ''Banner''), (''priority'', JNum 0)]" "''priority''" "[]"
        "JStr ''Banner''" JUndefined JUndefined]
  show ?thesis by blast
qed

subsection \<open>User serialization\<close>

lemma obj_delete_keys: "fst ` set (obj_delete k kvs) = fst ` set kvs - {k}"
  by (auto simp: obj_delete_def)

lemma toObject_password:
  "password u = Some p \<Longrightarrow> map_of (toObject u) ''password'' = Some (JStr p)"
  by (simp add: toObject_def)

text \<open>
  C8. For every user document, whether or not the password and the refresh token are
  loaded on it, the object returned by \<open>toJSON\<close> has no \<open>password\<close> key and no
  \<open>refreshToken\<close> key; its other keys are those of \<open>toObject\<close>.
\<close>

theorem toJSON_hides_secrets:
  "''password'' \<notin> fst ` set (toJSON u)
   \<and> ''refreshToken'' \<notin> fst ` set (toJSON u)
   \<and> map_of (toJSON u) ''password'' = None
   \<and> map_of (toJSON u) ''refreshToken'' = None
   \<and> fst ` set (toJSON u) = fst ` set (toObject u) - {''password'', ''refreshToken''}"
proof -
  have k: "fst ` set (toJSON u) = fst ` set (toObject u) - {''password'', ''refreshToken''}"
    by (auto simp: toJSON_def Let_def obj_delete_keys)
  then have "''password'' \<notin> fst ` set (toJSON u)" and "''refreshToken'' \<notin> fst ` set (toJSON u)"
    by simp_all
  with k show ?thesis by (simp add: map_of_eq_None_iff)
qed

theorem toJSON_hides_secrets_witness:
  "map_of (toObject \<lparr> user_id = ''u1'', username = ''sam'', email = ''sam@example.com'',
       password = Some ''$2a$12$hash'', role = ''admin'', avatar = [], user_isActive = True,
       lastLogin = None, refreshToken = Some (JStr ''token''), watchlist = [],
       user_preferences = \<lparr> pref_language = ''en'', theme = ''dark'',
                              emailNotifications = True \<rparr>,
       user_createdAt = 0, user_updatedAt = 0 \<rparr>) ''password'' = Some (JStr ''$2a$12$hash'')
   \<and> map_of (toJSON \<lparr> user_id = ''u1'', username = ''sam'', email = ''sam@example.com'',
       password = Some ''$2a$12$hash'', role = ''admin'', avatar = [], user_isActive = True,
       lastLogin = None, refreshToken = Some (JStr ''token''), watchlist = [],
       user_preferences = \<lparr> pref_language = ''en'', theme = ''dark'',
                              emailNotifications = True \<rparr>,
       user_createdAt = 0, user_updatedAt = 0 \<rparr>) ''password'' = None
   \<and> map_of (toJSON \<lparr> user_id = ''u1'', username = ''sam'', email = ''sam@example.com'',
       password = Some ''$2a$12$hash'', role = ''admin'', avatar = [], user_isActive = True,
       lastLogin = None, refreshToken = Some (JStr ''token''), watchlist = [],
       user_preferences = \<lparr> pref_language = ''en'', theme = ''dark'',
                              emailNotifications = True \<rparr>,
       user_createdAt = 0, user_updatedAt = 0 \<rparr>) ''refreshToken'' = None"
  using toJSON_hides_secrets
    [of "\<lparr> user_id = ''u1'', username = ''sam'', email = ''sam@example.com'',
       password = Some ''$2a$12$hash'', role = ''admin'', avatar = [], user_isActive = True,
       lastLogin = None, refreshToken = Some (JStr ''token''), watchlist = [],
       user_preferences = \<lparr> pref_language = ''en'', theme = ''dark'',
                              emailNotifications = True \<rparr>,
       user_createdAt = 0, user_updatedAt = 0 \<rparr>"]
  by (simp add: toObject_def)

subsection \<open>Ad targeting\<close>

lemma slice_to_subset: "set (slice_to e xs) \<subseteq> set xs"
  by (auto simp: slice_to_def split: option.splits dest: in_set_takeD)

lemma filter_by_country_subset: "set (filter_by_country cp ads) \<subseteq> set ads"
  by (cases cp) (auto simp: filter_by_country_def)

lemma served_from:
  "s \<in> set (map serve (slice_to e (sort_key (\<lambda>a. - priority a) (filter_by_country cp found))))
   \<Longrightarrow> \<exists>a \<in> set found. s = serve a"
  using slice_to_subset [of e "sort_key (\<lambda>a. - priority a) (filter_by_country cp found)"]
    filter_by_country_subset [of cp found]
  by auto

lemma getAdsByPlacement_served:
  assumes "s \<in> set (getAdsByPlacement now ads pl pp dp cp lp)"
  shows "\<exists>a \<in> set (getActiveAdsByPlacement now ads pl
                      (case pp of None \<Rightarrow> ''all'' | Some p \<Rightarrow> p)
                      (case dp of None \<Rightarrow> ''all'' | Some d \<Rightarrow> d)). s = serve a"
  using assms unfolding getAdsByPlacement_def Let_def by (rule served_from)

text \<open>
  C5 (as the code has it). An ad is returned by \<open>getActiveAdsByPlacement\<close> exactly when
  it is in the collection, has the requested placement, is active, is inside its schedule
  window, and passes page and device targeting, where an ad passes a targeting test iff
  the requested value is \<open>'all'\<close> (no targeting requested, the default) or its target
  list is empty, contains the requested value, or contains \<open>'all'\<close>. For placement
  \<open>Header\<close> and page \<open>homepage\<close>: an ad whose \<open>targetPages\<close> is \<open>['detail']\<close> is never
  returned, and every ad that is returned when no page is requested and whose
  \<open>targetPages\<close> is empty or contains \<open>'all'\<close> is returned.
\<close>

theorem getActiveAdsByPlacement_targeting:
  "(a \<in> set (getActiveAdsByPlacement now ads pl pg dv) \<longleftrightarrow>
      a \<in> set ads \<and> placement a = pl \<and> ad_isActive a
      \<and> (startDate a = NoDate \<or> (\<exists>t. startDate a = DateAt t \<and> t \<le> now))
      \<and> (endDate a = NoDate \<or> (\<exists>t. endDate a = DateAt t \<and> now \<le> t))
      \<and> (pg = ''all'' \<or> targetPages a = [] \<or> pg \<in> set (targetPages a)
           \<or> ''all'' \<in> set (targetPages a))
      \<and> (dv = ''all'' \<or> targetDevices a = [] \<or> dv \<in> set (targetDevices a)
           \<or> ''all'' \<in> set (targetDevices a)))
   \<and> (targetPages a = [''detail''] \<longrightarrow>
        a \<notin> set (getActiveAdsByPlacement now ads ''Header'' ''homepage'' dv))
   \<and> (a \<in> set (getActiveAdsByPlacement now ads ''Header'' ''all'' dv)
        \<and> (targetPages a = [] \<or> ''all'' \<in> set (targetPages a)) \<longrightarrow>
        a \<in> set (getActiveAdsByPlacement now ads ''Header'' ''homepage'' dv))"
  by (auto simp: getActiveAdsByPlacement_def active_ads_query_def array_in_def list_ex_iff
        date_lte_def date_gte_def date_missing_def split: datefield.splits)

theorem getActiveAdsByPlacement_targeting_witness:
  "\<lparr> ad_id = ''a1'', ad_name = ''top'', ad_type = ''Banner'', placement = ''Header'',
      code = ''<div/>'', redirectUrl = [], ad_isActive = True, priority = 3,
      targetPages = [], targetDevices = [], targetCountries = [],
      startDate = DateAt 10, endDate = NoDate, ad_createdAt = 5 \<rparr>
     \<in> set (getActiveAdsByPlacement 100
         [\<lparr> ad_id = ''a1'', ad_name = ''top'', ad_type = ''Banner'', placement = ''Header'',
             code = ''<div/>'', redirectUrl = [], ad_isActive = True, priority = 3,
             targetPages = [], targetDevices = [], targetCountries = [],
             startDate = DateAt 10, endDate = NoDate, ad_createdAt = 5 \<rparr>]
         ''Header'' ''homepage'' ''all'')
   \<and> \<lparr> ad_id = ''a2'', ad_name = ''detail only'', ad_type = ''Banner'', placement = ''Header'',
      code = ''<div/>'', redirectUrl = [], ad_isActive = True, priority = 9,
      targetPages = [''detail''], targetDevices = [], targetCountries = [],
      startDate = DateAt 10, endDate = NoDate, ad_createdAt = 6 \<rparr>
     \<notin> set (getActiveAdsByPlacement 100
         [\<lparr> ad_id = ''a2'', ad_name = ''detail only'', ad_type = ''Banner'',
             placement = ''Header'', code = ''<div/>'', redirectUrl = [], ad_isActive = True,
             priority = 9, targetPages = [''detail''], targetDevices = [],
             targetCountries = [], startDate = DateAt 10, endDate = NoDate,
             ad_createdAt = 6 \<rparr>]
         ''Header'' ''homepage'' ''all'')"
proof -
  have "\<lparr> ad_id = ''a1'', ad_name = ''top'', ad_type = ''Banner'', placement = ''Header'',
      code = ''<div/>'', redirectUrl = [], ad_isActive = True, priority = 3,
      targetPages = [], targetDevices = [], targetCountries = [],
      startDate = DateAt 10, endDate = NoDate, ad_createdAt = 5 \<rparr>
     \<in> set (getActiveAdsByPlacement 100
         [\<lparr> ad_id = ''a1'', ad_name = ''top'', ad_type = ''Banner'', placement = ''Header'',
             code = ''<div/>'', redirectUrl = [], ad_isActive = True, priority = 3,
             targetPages = [], targetDevices = [], targetCountries = [],
             startDate = DateAt 10, endDate = NoDate, ad_createdAt = 5 \<rparr>]
         ''Header'' ''homepage'' ''all'')"
    by (subst getActiveAdsByPlacement_targeting [THEN conjunct1]) simp
  moreover have "\<lparr> ad_id = ''a2'', ad_name = ''detail only'', ad_type = ''Banner'',
      placement = ''Header'',
      code = ''<div/>'', redirectUrl = [], ad_isActive = True, priority = 9,
      targetPages = [''detail''], targetDevices = [], targetCountries = [],
      startDate = DateAt 10, endDate = NoDate, ad_createdAt = 6 \<rparr>
     \<notin> set (getActiveAdsByPlacement 100
         [\<lparr> ad_id = ''a2'', ad_name = ''detail only'', ad_type = ''Banner'',
             placement = ''Header'', code = ''<div/>'', redirectUrl = [], ad_isActive = True,
             priority = 9, targetPages = [''detail''], targetDevices = [],
             targetCountries = [], startDate = DateAt 10, endDate = NoDate,
             ad_createdAt = 6 \<rparr>]
         ''Header'' ''homepage'' ''all'')"
    by (rule getActiveAdsByPlacement_targeting [THEN conjunct2, THEN conjunct1, rule_format])
      simp
  ultimately show ?thesis by blast
qed

text \<open>
  The claim as stated fails when the requested page is \<open>'all'\<close>, the default of the
  handler: an ad targeted at \<open>['detail']\<close> passes although its list is not empty and
  contains neither the requested value nor \<open>'all'\<close>, and the handler serves it.
\<close>

theorem getActiveAdsByPlacement_all_counterexample:
  "\<lparr> ad_id = ''a2'', ad_name = ''detail only'', ad_type = ''Banner'', placement = ''Header'',
      code = ''<div/>'', redirectUrl = [], ad_isActive = True, priority = 9,
      targetPages = [''detail''], targetDevices = [], targetCountries = [],
      startDate = DateAt 10, endDate = NoDate, ad_createdAt = 6 \<rparr>
     \<in> set (getActiveAdsByPlacement 100
         [\<lparr> ad_id = ''a2'', ad_name = ''detail only'', ad_type = ''Banner'',
             placement = ''Header'', code = ''<div/>'', redirectUrl = [], ad_isActive = True,
             priority = 9, targetPages = [''detail''], targetDevices = [],
             targetCountries = [], startDate = DateAt 10, endDate = NoDate,
             ad_createdAt = 6 \<rparr>]
         ''Header'' ''all'' ''all'')
   \<and> [''detail''] \<noteq> ([] :: string list)
   \<and> ''all'' \<notin> set [''detail'']
   \<and> map served_id (getAdsByPlacement 100
         [\<lparr> ad_id = ''a2'', ad_name = ''detail only'', ad_type = ''Banner'',
             placement = ''Header'', code = ''<div/>'', redirectUrl = [], ad_isActive = True,
             priority = 9, targetPages = [''detail''], targetDevices = [],
             targetCountries = [], startDate = DateAt 10, endDate = NoDate,
             ad_createdAt = 6 \<rparr>]
         ''Header'' None None None None) = [''a2'']"
  by code_simp

subsection \<open>Series: derived counters\<close>

lemma foldl_episode_count:
  "foldl (\<lambda>acc sn. acc + int (length (episodes sn))) a xs
     = a + sum_list (map (\<lambda>sn. int (length (episodes sn))) xs)"
  by (induction xs arbitrary: a) simp_all

lemma pre_save_counts_ok: "counts_ok (pre_save m fresh s)"
  by (simp add: pre_save_def counts_ok_def Let_def foldl_episode_count)

lemma save_counts_ok: "save m s = Some s' \<Longrightarrow> counts_ok s'"
  by (auto simp: save_def pre_save_counts_ok split: if_splits)

lemma addSeason_store:
  assumes "addSeason m db usr sid body = (rep, db')"
  shows "(\<forall>s. saved_of rep = Some s \<longrightarrow> counts_ok s \<and> db' sid = Some s)
         \<and> (saved_of rep = None \<longrightarrow> db' = db)
         \<and> (\<forall>i s. db' i = Some s \<longrightarrow> counts_ok s \<or> db i = Some s)"
  using assms
  by (auto simp: addSeason_def Let_def saved_of_def split: option.splits if_splits
      dest: save_counts_ok)

lemma addEpisode_store:
  assumes "addEpisode m db usr sid param body = (rep, db')"
  shows "(\<forall>s. saved_of rep = Some s \<longrightarrow> counts_ok s \<and> db' sid = Some s)
         \<and> (saved_of rep = None \<longrightarrow> db' = db)
         \<and> (\<forall>i s. db' i = Some s \<longrightarrow> counts_ok s \<or> db i = Some s)"
  using assms
  by (auto simp: addEpisode_def Let_def saved_of_def split: option.splits if_splits
      dest: save_counts_ok)

lemma handle_store:
  assumes "handle m db r = (rep, db')"
  shows "(\<forall>s. saved_of rep = Some s \<longrightarrow> counts_ok s)
         \<and> (\<forall>i s. db' i = Some s \<longrightarrow> counts_ok s \<or> db i = Some s)"
proof (cases r)
  case (AddSeason usr sid body)
  with assms addSeason_store [of m db usr sid body rep db'] show ?thesis by simp
next
  case (AddEpisode usr sid param body)
  with assms addEpisode_store [of m db usr sid param body rep db'] show ?thesis by simp
qed

text \<open>
  C1. For every collection and every sequence of \<open>addSeason\<close> and \<open>addEpisode\<close>
  requests, every saved series (the document of each successful reply) has
  \<open>numberOfEpisodes\<close> equal to the sum of the lengths of its seasons' episode lists and
  \<open>numberOfSeasons\<close> equal to the length of its season list; a document of the final
  collection either has this property or is a document of the initial collection that no
  request saved.
\<close>

theorem run_counts_ok:
  "run m db reqs = (reps, db') \<Longrightarrow>
     (\<forall>rep \<in> set reps. \<forall>s. saved_of rep = Some s \<longrightarrow> counts_ok s)
     \<and> (\<forall>i s. db' i = Some s \<longrightarrow> counts_ok s \<or> db i = Some s)"
proof (induction reqs arbitrary: db reps db')
  case Nil
  then show ?case by simp
next
  case (Cons r rs)
  obtain rep db1 where h: "handle m db r = (rep, db1)" by (cases "handle m db r")
  obtain reps1 db2 where t: "run m db1 rs = (reps1, db2)" by (cases "run m db1 rs")
  from Cons.prems h t have e: "reps = rep # reps1" "db' = db2" by simp_all
  from Cons.IH [OF t] have ih1: "\<forall>rep \<in> set reps1. \<forall>s. saved_of rep = Some s \<longrightarrow> counts_ok s"
    and ih2: "\<forall>i s. db2 i = Some s \<longrightarrow> counts_ok s \<or> db1 i = Some s" by blast+
  from handle_store [OF h] have h1: "\<forall>s. saved_of rep = Some s \<longrightarrow> counts_ok s"
    and h2: "\<forall>i s. db1 i = Some s \<longrightarrow> counts_ok s \<or> db i = Some s" by blast+
  from ih1 h1 e have "\<forall>rep \<in> set reps. \<forall>s. saved_of rep = Some s \<longrightarrow> counts_ok s" by simp
  moreover from ih2 h2 e have "\<forall>i s. db' i = Some s \<longrightarrow> counts_ok s \<or> db i = Some s" by blast
  ultimately show ?case by blast
qed

lemma example_run_statuses:
  "map status_of (fst (run example_odm example_store example_requests)) = [201, 201, 409, 404]"
  by code_simp

lemma example_run_final:
  "snd (run example_odm example_store example_requests) ''s1'' = Some example_series2"
  by code_simp

lemma example_run_first:
  "fst (run example_odm example_store example_requests) \<noteq> []
   \<and> saved_of (hd (fst (run example_odm example_store example_requests)))
       = Some example_series1"
  by code_simp

theorem run_counts_ok_witness:
  "map status_of (fst (run example_odm example_store example_requests)) = [201, 201, 409, 404]
   \<and> saved_of (hd (fst (run example_odm example_store example_requests)))
       = Some example_series1
   \<and> counts_ok example_series1
   \<and> snd (run example_odm example_store example_requests) ''s1'' = Some example_series2
   \<and> counts_ok example_series2"
proof -
  have e: "run example_odm example_store example_requests
             = (fst (run example_odm example_store example_requests),
                snd (run example_odm example_store example_requests))"
    by simp
  have n: "example_store ''s1'' \<noteq> Some example_series2"
    by (simp add: example_store_def example_series2_def example_series_def)
  from example_run_first
  have h: "hd (fst (run example_odm example_store example_requests))
             \<in> set (fst (run example_odm example_store example_requests))"
    by simp
  from run_counts_ok [OF e] h example_run_first have c1: "counts_ok example_series1" by blast
  from run_counts_ok [OF e] example_run_final n have c2: "counts_ok example_series2" by blast
  from c1 c2 example_run_statuses example_run_first example_run_final show ?thesis by blast
qed

subsection \<open>Series: adding a season twice\<close>

lemma example_first_season:
  "fst (addSeason example_odm example_store example_owner ''s1'' [(''seasonNumber'', JNum 1)])
     = Reply 201 ''Season added successfully'' (Some example_series1)
   \<and> snd (addSeason example_odm example_store example_owner ''s1'' [(''seasonNumber'', JNum 1)])
         ''s1'' = Some example_series1"
  by code_simp



subsection \<open>Decimal path parameters\<close>


















subsection \<open>Series: adding an episode\<close>




subsection \<open>Combined feed: the trending order\<close>

lemma insert_by_insort_key:
  assumes "\<And>x y. le x y \<longleftrightarrow> f x \<le> f y"
  shows "insert_by le x ys = insort_key f x ys"
  by (induction ys) (simp_all add: assms)

lemma stable_sort_by_sort_key:
  assumes "\<And>x y. le x y \<longleftrightarrow> f x \<le> f y"
  shows "stable_sort_by le xs = sort_key f xs"
proof -
  have "insert_by le = insort_key f"
    by (intro ext) (rule insert_by_insort_key [OF assms])
  then show ?thesis by (simp add: stable_sort_by_def sort_key_def)
qed

lemma buildSortQuery_trending:
  "buildSortQuery ''trending'' so = [(''views'', - 1), (''rating'', - 1), (''createdAt'', - 1)]"
  by (simp add: buildSortQuery_def sortMapping_def Let_def)

lemma cmp_spec_trending:
  "cmp_spec [(''views'', - 1), (''rating'', - 1), (''createdAt'', - 1)] a b \<le> 0
     \<longleftrightarrow> (- views a, - rating a, - createdAt a) \<le> (- views b, - rating b, - createdAt b)"
  by (auto simp: field_value_def Let_def less_eq_prod_def less_prod_def)

lemma db_sort_trending:
  "db_sort (buildSortQuery ''trending'' so) ds
     = sort_key (\<lambda>d. (- views d, - rating d, - createdAt d)) ds"
  unfolding db_sort_def buildSortQuery_trending
  by (rule stable_sort_by_sort_key) (rule cmp_spec_trending)

lemma js_sort_trending:
  "js_sort (content_compare lc ''trending'') xs = sort_key (\<lambda>x. - trendingScore x) xs"
  unfolding js_sort_def
  by (rule stable_sort_by_sort_key) (auto simp: content_compare_def)

lemma precedes_sorted:
  "sorted (map f xs) \<Longrightarrow> a \<in> set xs \<Longrightarrow> b \<in> set xs \<Longrightarrow> f a < f b \<Longrightarrow> precedes a b xs"
proof (induction xs)
  case Nil
  then show ?case by simp
next
  case (Cons z zs)
  show ?case
  proof (cases "z = a")
    case True
    with Cons.prems show ?thesis by auto
  next
    case False
    with Cons.prems have a: "a \<in> set zs" by simp
    have "b \<noteq> z"
    proof
      assume "b = z"
      with Cons.prems(1) a have "f b \<le> f a" by auto
      with Cons.prems(4) show False by simp
    qed
    with Cons.prems have "b \<in> set zs" by simp
    with Cons.IH Cons.prems a have "precedes a b zs" by simp
    with False show ?thesis by simp
  qed
qed

lemma precedes_filter:
  "P a \<Longrightarrow> P b \<Longrightarrow> precedes a b (filter P xs) = precedes a b xs"
  by (induction xs) auto

lemma precedes_stable:
  assumes "precedes a b xs" and "g a = g b"
  shows "precedes a b (sort_key g xs)"
proof -
  from assms have "precedes a b (filter (\<lambda>y. g y = g a) xs)"
    by (simp add: precedes_filter)
  then have "precedes a b (filter (\<lambda>y. g y = g a) (sort_key g xs))"
    by (simp add: sort_key_stable)
  with assms(2) show ?thesis by (simp add: precedes_filter)
qed

lemma precedes_map:
  "inj f \<Longrightarrow> precedes a b xs \<Longrightarrow> precedes (f a) (f b) (map f xs)"
  by (induction xs) (auto simp: inj_eq)

lemma precedes_append_left: "precedes a b xs \<Longrightarrow> precedes a b (xs @ ys)"
  by (induction xs) auto

lemma precedes_append_right: "a \<notin> set xs \<Longrightarrow> precedes a b ys \<Longrightarrow> precedes a b (xs @ ys)"
  by (induction xs) auto

lemma precedes_append_cross: "a \<in> set xs \<Longrightarrow> b \<in> set ys \<Longrightarrow> precedes a b (xs @ ys)"
  by (induction xs) auto

lemma precedes_drop:
  "distinct xs \<Longrightarrow> precedes a b xs \<Longrightarrow> a \<in> set (drop k xs) \<Longrightarrow> precedes a b (drop k xs)"
proof (induction xs arbitrary: k)
  case Nil
  then show ?case by simp
next
  case (Cons z zs)
  show ?case
  proof (cases k)
    case 0
    with Cons.prems show ?thesis by simp
  next
    case (Suc j)
    with Cons.prems have a: "a \<in> set (drop j zs)" by simp
    then have "a \<in> set zs" by (rule in_set_dropD)
    with Cons.prems(1) have "z \<noteq> a" by auto
    with Cons.prems have "precedes a b zs" by simp
    with Cons.IH [of j] Cons.prems(1) a Suc show ?thesis by simp
  qed
qed

lemma precedes_take:
  "precedes a b xs \<Longrightarrow> b \<in> set (take n xs) \<Longrightarrow> distinct xs \<Longrightarrow> precedes a b (take n xs)"
proof (induction xs arbitrary: n)
  case Nil
  then show ?case by simp
next
  case (Cons z zs)
  show ?case
  proof (cases n)
    case 0
    with Cons.prems show ?thesis by simp
  next
    case (Suc j)
    show ?thesis
    proof (cases "z = a")
      case True
      from Cons.prems(1) True have "b \<in> set zs" by simp
      with Cons.prems(3) have "b \<noteq> z" by auto
      with Cons.prems(2) Suc have "b \<in> set (take j zs)" by simp
      with True Suc show ?thesis by simp
    next
      case False
      with Cons.prems(1) have p: "precedes a b zs" by simp
      have "b \<noteq> z"
      proof
        assume "b = z"
        with Cons.prems(3) have "b \<notin> set zs" by simp
        moreover from p have "b \<in> set zs" by (induction zs) (auto split: if_splits)
        ultimately show False by simp
      qed
      with Cons.prems(2) Suc have "b \<in> set (take j zs)" by simp
      with Cons.IH [of j] p Cons.prems(3) have "precedes a b (take j zs)" by simp
      with False Suc show ?thesis by simp
    qed
  qed
qed

lemma precedes_slice:
  assumes "distinct xs" and "precedes a b xs"
    and "a \<in> set (js_slice s e xs)" and "b \<in> set (js_slice s e xs)"
  shows "precedes a b (js_slice s e xs)"
proof -
  define k where "k = slice_index (length xs) s"
  define n where "n = slice_index (length xs) e - k"
  have eq: "js_slice s e xs = take n (drop k xs)"
    by (simp add: js_slice_def Let_def k_def n_def)
  from assms(3) eq have "a \<in> set (drop k xs)" by (auto dest: in_set_takeD)
  with assms(1,2) have "precedes a b (drop k xs)" by (rule precedes_drop)
  moreover from assms(4) eq have "b \<in> set (take n (drop k xs))" by simp
  moreover from assms(1) have "distinct (drop k xs)" by simp
  ultimately have "precedes a b (take n (drop k xs))" by (rule precedes_take)
  with eq show ?thesis by simp
qed

lemma inj_tag: "inj (tag ct)"
  by (rule injI) (simp add: tag_def content_doc.extend_def content_item.fields_def
      content_doc.equality)

lemma tag_fields [simp]:
  "views (tag ct d) = views d" "rating (tag ct d) = rating d" "likes (tag ct d) = likes d"
  "createdAt (tag ct d) = createdAt d" "item_contentType (tag ct d) = ct"
  by (simp_all add: tag_def content_doc.extend_def content_item.fields_def)

lemma trendingScore_tag [simp]: "trendingScore (tag ct d) = trendingScore d"
  by (simp add: trendingScore_def)

lemma tag_types_differ: "ct \<noteq> ct' \<Longrightarrow> tag ct d \<noteq> tag ct' d'"
  by (metis tag_fields(5))

lemma allContent_all_trending:
  "allContent lc ''all'' ''trending'' so movies series
     = sort_key (\<lambda>x. - trendingScore x)
         (map (tag ''Movie'')
            (sort_key (\<lambda>d. (- views d, - rating d, - createdAt d)) movies)
          @ map (tag ''Series'')
            (sort_key (\<lambda>d. (- views d, - rating d, - createdAt d)) series))"
  by (simp add: allContent_def Let_def db_sort_trending js_sort_trending)

lemma allContent_distinct:
  assumes "distinct movies" and "distinct series"
  shows "distinct (allContent lc ''all'' ''trending'' so movies series)"
proof -
  have "set (map (tag ''Movie'') xs) \<inter> set (map (tag ''Series'') ys) = {}" for xs ys
    using tag_types_differ [of "''Movie''" "''Series''"] by auto
  with assms show ?thesis
    by (simp add: allContent_all_trending distinct_map inj_tag [THEN inj_on_subset])
qed

lemma trending_same_collection:
  assumes "a \<in> set ds" and "b \<in> set ds"
    and "views a = views b" and "rating a = rating b" and "createdAt b < createdAt a"
  shows "precedes (tag ct a) (tag ct b)
           (map (tag ct) (sort_key (\<lambda>d. (- views d, - rating d, - createdAt d)) ds))"
proof -
  let ?key = "\<lambda>d :: content_doc. (- views d, - rating d, - createdAt d)"
  have k: "?key a < ?key b" using assms(3-5) by (simp add: less_prod_def)
  have s: "sorted (map ?key (sort_key ?key ds))" by (rule sorted_sort_key)
  have "precedes a b (sort_key ?key ds)"
    by (rule precedes_sorted [OF s _ _ k]) (simp_all add: assms)
  with inj_tag show ?thesis by (rule precedes_map)
qed

lemma getContent_page:
  "\<exists>s e. fst (getContent lc pp lp ty sb so movies series)
           = js_slice s e (allContent lc ty sb so movies series)"
  by (simp add: getContent_def Let_def) blast

lemma trendingScore_equal:
  "views a = views b \<Longrightarrow> rating a = rating b \<Longrightarrow> likes a = likes b
     \<Longrightarrow> trendingScore a = trendingScore b"
  by (simp add: trendingScore_def)

text \<open>
  C4 (as the code has it). In the combined feed (\<open>type = all\<close>) sorted by
  \<open>trending\<close>, two documents of the same collection, both movies or both series, with
  equal views, rating and likes and different creation dates stand with the more recent
  one first, in the whole feed and on every page that shows both. Across the collections
  the creation date plays no part: a movie stands before every series of the same
  trending score.
\<close>

theorem getContent_trending_ties:
  assumes "distinct movies" and "distinct series"
    and "(a \<in> set movies \<and> b \<in> set movies \<and> ct = ''Movie'')
         \<or> (a \<in> set series \<and> b \<in> set series \<and> ct = ''Series'')"
    and "views a = views b" and "rating a = rating b" and "likes a = likes b"
    and "createdAt b < createdAt a"
  shows "precedes (tag ct a) (tag ct b) (allContent lc ''all'' ''trending'' so movies series)
     \<and> (tag ct a \<in> set (fst (getContent lc pp lp ''all'' ''trending'' so movies series))
        \<and> tag ct b \<in> set (fst (getContent lc pp lp ''all'' ''trending'' so movies series))
        \<longrightarrow> precedes (tag ct a) (tag ct b)
              (fst (getContent lc pp lp ''all'' ''trending'' so movies series)))
     \<and> (m \<in> set movies \<and> s \<in> set series \<and> trendingScore m = trendingScore s
        \<longrightarrow> precedes (tag ''Movie'' m) (tag ''Series'' s)
              (allContent lc ''all'' ''trending'' so movies series))"
proof -
  let ?key = "\<lambda>d :: content_doc. (- views d, - rating d, - createdAt d)"
  let ?M = "map (tag ''Movie'') (sort_key ?key movies)"
  let ?S = "map (tag ''Series'') (sort_key ?key series)"
  let ?feed = "allContent lc ''all'' ''trending'' so movies series"
  let ?g = "\<lambda>x :: content_item. - trendingScore x"
  have feed: "?feed = sort_key ?g (?M @ ?S)"
    by (rule allContent_all_trending)
  have "trendingScore a = trendingScore b"
    using assms(4-6) by (rule trendingScore_equal)
  then have score: "?g (tag ct a) = ?g (tag ct b)"
    by (simp only: trendingScore_tag)
  have comb: "precedes (tag ct a) (tag ct b) (?M @ ?S)"
    using assms(3)
  proof
    assume h: "a \<in> set movies \<and> b \<in> set movies \<and> ct = ''Movie''"
    then have am: "a \<in> set movies" and bm: "b \<in> set movies" and ct: "ct = ''Movie''"
      by blast+
    have "precedes (tag ''Movie'' a) (tag ''Movie'' b) ?M"
      using am bm assms(4,5,7) by (rule trending_same_collection)
    then have "precedes (tag ''Movie'' a) (tag ''Movie'' b) (?M @ ?S)"
      by (rule precedes_append_left)
    then show ?thesis unfolding ct .
  next
    assume h: "a \<in> set series \<and> b \<in> set series \<and> ct = ''Series''"
    then have am: "a \<in> set series" and bm: "b \<in> set series" and ct: "ct = ''Series''"
      by blast+
    have p: "precedes (tag ''Series'' a) (tag ''Series'' b) ?S"
      using am bm assms(4,5,7) by (rule trending_same_collection)
    have "tag ''Series'' a \<notin> set ?M"
    proof
      assume "tag ''Series'' a \<in> set ?M"
      then obtain d where "tag ''Series'' a = tag ''Movie'' d" by auto
      moreover have "tag ''Series'' a \<noteq> tag ''Movie'' d"
        by (rule tag_types_differ) simp
      ultimately show False by simp
    qed
    then have "precedes (tag ''Series'' a) (tag ''Series'' b) (?M @ ?S)"
      using p by (rule precedes_append_right)
    then show ?thesis unfolding ct .
  qed
  have "precedes (tag ct a) (tag ct b) (sort_key ?g (?M @ ?S))"
    using comb score by (rule precedes_stable [where g = ?g])
  then have whole: "precedes (tag ct a) (tag ct b) ?feed"
    by (simp only: feed)
  have dist: "distinct ?feed" using assms(1,2) by (rule allContent_distinct)
  obtain st en where page:
    "fst (getContent lc pp lp ''all'' ''trending'' so movies series) = js_slice st en ?feed"
    using getContent_page by blast
  have paged: "tag ct a \<in> set (fst (getContent lc pp lp ''all'' ''trending'' so movies series))
        \<and> tag ct b \<in> set (fst (getContent lc pp lp ''all'' ''trending'' so movies series))
        \<longrightarrow> precedes (tag ct a) (tag ct b)
              (fst (getContent lc pp lp ''all'' ''trending'' so movies series))"
  proof
    assume "tag ct a \<in> set (fst (getContent lc pp lp ''all'' ''trending'' so movies series))
        \<and> tag ct b \<in> set (fst (getContent lc pp lp ''all'' ''trending'' so movies series))"
    then have ia: "tag ct a \<in> set (js_slice st en ?feed)"
      and ib: "tag ct b \<in> set (js_slice st en ?feed)"
      by (simp_all only: page)
    have "precedes (tag ct a) (tag ct b) (js_slice st en ?feed)"
      using dist whole ia ib by (rule precedes_slice)
    then show "precedes (tag ct a) (tag ct b)
              (fst (getContent lc pp lp ''all'' ''trending'' so movies series))"
      by (simp only: page)
  qed
  have cross: "m \<in> set movies \<and> s \<in> set series \<and> trendingScore m = trendingScore s
        \<longrightarrow> precedes (tag ''Movie'' m) (tag ''Series'' s) ?feed"
  proof
    assume h: "m \<in> set movies \<and> s \<in> set series \<and> trendingScore m = trendingScore s"
    then have "tag ''Movie'' m \<in> set ?M" and "tag ''Series'' s \<in> set ?S" by simp_all
    then have c: "precedes (tag ''Movie'' m) (tag ''Series'' s) (?M @ ?S)"
      by (rule precedes_append_cross)
    from h have e: "?g (tag ''Movie'' m) = ?g (tag ''Series'' s)"
      by (simp only: trendingScore_tag)
    have "precedes (tag ''Movie'' m) (tag ''Series'' s) (sort_key ?g (?M @ ?S))"
      using c e by (rule precedes_stable [where g = ?g])
    then show "precedes (tag ''Movie'' m) (tag ''Series'' s) ?feed"
      by (simp only: feed)
  qed
  show ?thesis
    by (intro conjI) (rule whole, rule paged, rule cross)
qed

lemma example_feed:
  "map doc_id (fst (getContent (\<lambda>x y. 0) None None ''all'' ''trending'' ''desc''
       [example_movie_old, example_movie_new] [example_series_new])) = [''m2'', ''m1'', ''s1'']"
  by code_simp

theorem getContent_trending_ties_witness:
  "distinct [example_movie_old, example_movie_new]
   \<and> distinct [example_series_new]
   \<and> createdAt example_movie_old < createdAt example_movie_new
   \<and> precedes (tag ''Movie'' example_movie_new) (tag ''Movie'' example_movie_old)
        (allContent (\<lambda>x y. 0) ''all'' ''trending'' ''desc''
           [example_movie_old, example_movie_new] [example_series_new])
   \<and> precedes (tag ''Movie'' example_movie_new) (tag ''Movie'' example_movie_old)
        (fst (getContent (\<lambda>x y. 0) None None ''all'' ''trending'' ''desc''
           [example_movie_old, example_movie_new] [example_series_new]))"
proof -
  have d1: "distinct [example_movie_old, example_movie_new]"
    by (simp add: example_movie_old_def example_movie_new_def)
  have d2: "distinct [example_series_new]" by simp
  have mem: "(example_movie_new \<in> set [example_movie_old, example_movie_new]
              \<and> example_movie_old \<in> set [example_movie_old, example_movie_new]
              \<and> ''Movie'' = ''Movie'')
             \<or> (example_movie_new \<in> set [example_series_new]
              \<and> example_movie_old \<in> set [example_series_new] \<and> ''Movie'' = ''Series'')"
    by simp
  have v: "views example_movie_new = views example_movie_old"
    and r: "rating example_movie_new = rating example_movie_old"
    and l: "likes example_movie_new = likes example_movie_old"
    and c: "createdAt example_movie_old < createdAt example_movie_new"
    by (simp_all add: example_movie_old_def example_movie_new_def)
  have inpage:
    "tag ''Movie'' example_movie_new
       \<in> set (fst (getContent (\<lambda>x y. 0) None None ''all'' ''trending'' ''desc''
           [example_movie_old, example_movie_new] [example_series_new]))
     \<and> tag ''Movie'' example_movie_old
       \<in> set (fst (getContent (\<lambda>x y. 0) None None ''all'' ''trending'' ''desc''
           [example_movie_old, example_movie_new] [example_series_new]))"
    by code_simp
  have "precedes (tag ''Movie'' example_movie_new) (tag ''Movie'' example_movie_old)
        (allContent (\<lambda>x y. 0) ''all'' ''trending'' ''desc''
           [example_movie_old, example_movie_new] [example_series_new])
     \<and> (tag ''Movie'' example_movie_new
          \<in> set (fst (getContent (\<lambda>x y. 0) None None ''all'' ''trending'' ''desc''
                [example_movie_old, example_movie_new] [example_series_new]))
        \<and> tag ''Movie'' example_movie_old
          \<in> set (fst (getContent (\<lambda>x y. 0) None None ''all'' ''trending'' ''desc''
                [example_movie_old, example_movie_new] [example_series_new]))
        \<longrightarrow> precedes (tag ''Movie'' example_movie_new) (tag ''Movie'' example_movie_old)
              (fst (getContent (\<lambda>x y. 0) None None ''all'' ''trending'' ''desc''
                [example_movie_old, example_movie_new] [example_series_new])))
     \<and> (example_movie_old \<in> set [example_movie_old, example_movie_new]
        \<and> example_series_new \<in> set [example_series_new]
        \<and> trendingScore example_movie_old = trendingScore example_series_new
        \<longrightarrow> precedes (tag ''Movie'' example_movie_old) (tag ''Series'' example_series_new)
              (allContent (\<lambda>x y. 0) ''all'' ''trending'' ''desc''
                [example_movie_old, example_movie_new] [example_series_new]))"
    by (rule getContent_trending_ties [OF d1 d2 mem v r l c])
  with inpage d1 d2 c show ?thesis by blast
qed

text \<open>
  The claim as stated fails for a movie and a series: with equal views, rating and
  likes, the older movie stands before the more recent series.
\<close>

theorem getContent_trending_mixed_counterexample:
  "views example_movie_old = views example_series_new
   \<and> rating example_movie_old = rating example_series_new
   \<and> likes example_movie_old = likes example_series_new
   \<and> createdAt example_movie_old < createdAt example_series_new
   \<and> map doc_id (fst (getContent (\<lambda>x y. 0) None None ''all'' ''trending'' ''desc''
        [example_movie_old] [example_series_new])) = [''m1'', ''s1'']
   \<and> \<not> precedes (tag ''Series'' example_series_new) (tag ''Movie'' example_movie_old)
        (fst (getContent (\<lambda>x y. 0) None None ''all'' ''trending'' ''desc''
           [example_movie_old] [example_series_new]))"
  by code_simp

end
